theory Spec2Isabelle
  imports Main "HOL-Library.Word" "HOL-Library.Monad_Syntax"
begin

unbundle bit_operations_syntax

section \<open>Result codes and prerequisite flags\<close>

text \<open>
  \<^verbatim>\<open>enum errors\<close>: the handlers return plain \<^verbatim>\<open>int\<close>s, so the four codes are
  integer constants.
\<close>

abbreviation (input) SUCCESS :: int where "SUCCESS \<equiv> 0"
abbreviation (input) ERR_UNSUPPORTED :: int where "ERR_UNSUPPORTED \<equiv> 1"
abbreviation (input) ERR_USAGE :: int where "ERR_USAGE \<equiv> 2"
abbreviation (input) ERR_DEVICE :: int where "ERR_DEVICE \<equiv> 3"

text \<open>\<^verbatim>\<open>enum cmd_flags\<close>, stored in a \<^verbatim>\<open>uint32_t\<close>.\<close>

definition FLAG_VERBOSE :: "32 word" where "FLAG_VERBOSE = push_bit 0 1"
definition FLAG_VERBOSE_RAW :: "32 word" where "FLAG_VERBOSE_RAW = push_bit 1 1"
definition FLAG_NEED_DEVICE :: "32 word" where "FLAG_NEED_DEVICE = push_bit 10 1"
definition FLAG_NEED_PROFILE :: "32 word" where "FLAG_NEED_PROFILE = push_bit 11 1"
definition FLAG_NEED_RESOLUTION :: "32 word" where "FLAG_NEED_RESOLUTION = push_bit 12 1"

text \<open>Key codes of \<^verbatim>\<open>linux/input.h\<close> that the source names.\<close>

abbreviation (input) KEY_R :: nat where "KEY_R \<equiv> 19"
abbreviation (input) KEY_O :: nat where "KEY_O \<equiv> 24"
abbreviation (input) KEY_A :: nat where "KEY_A \<equiv> 30"
abbreviation (input) KEY_F :: nat where "KEY_F \<equiv> 33"
abbreviation (input) KEY_B :: nat where "KEY_B \<equiv> 48"
abbreviation (input) KEY_VOLUMEDOWN :: nat where "KEY_VOLUMEDOWN \<equiv> 114"
abbreviation (input) KEY_VOLUMEUP :: nat where "KEY_VOLUMEUP \<equiv> 115"
abbreviation (input) EINVAL :: int where "EINVAL \<equiv> 22"

section \<open>The device-abstraction library\<close>

text \<open>
  The handlers of \<^verbatim>\<open>ratbag-command.c\<close> reach the hardware only through libratbag,
  whose code is outside the file. What a device answers is data of the model: a device
  holds its profiles, a profile its resolutions and buttons, in index order. A handle is
  the path to the item (the device and the indices), so two handles are equal exactly
  when they denote the same item. A \<^verbatim>\<open>NULL\<close> handle is \<open>None\<close>.
\<close>

datatype ratbag_device_capability =
    RATBAG_DEVICE_CAP_SWITCHABLE_RESOLUTION
  | RATBAG_DEVICE_CAP_SWITCHABLE_PROFILE
  | RATBAG_DEVICE_CAP_BUTTON_KEY
  | RATBAG_DEVICE_CAP_BUTTON_MACROS

datatype ratbag_button_action_type =
    RATBAG_BUTTON_ACTION_TYPE_NONE
  | RATBAG_BUTTON_ACTION_TYPE_BUTTON
  | RATBAG_BUTTON_ACTION_TYPE_SPECIAL
  | RATBAG_BUTTON_ACTION_TYPE_KEY
  | RATBAG_BUTTON_ACTION_TYPE_MACRO
  | RATBAG_BUTTON_ACTION_TYPE_UNKNOWN

datatype ratbag_macro_event_type =
    RATBAG_MACRO_EVENT_NONE
  | RATBAG_MACRO_EVENT_KEY_PRESSED
  | RATBAG_MACRO_EVENT_KEY_RELEASED

record ratbag_resolution =
  dpi :: int
  dpi_x :: int
  dpi_y :: int
  report_rate :: int
  resolution_active :: bool
  resolution_default :: bool
  separate_xy_resolution :: bool

record ratbag_button =
  button_type_str :: string
  button_action_str :: string
  button_key :: nat
  button_action_type :: ratbag_button_action_type

record ratbag_profile =
  profile_active :: bool
  profile_default :: bool
  resolutions :: "ratbag_resolution list"
  buttons :: "ratbag_button list"

record ratbag_device =
  device_name :: string
  capabilities :: "ratbag_device_capability list"
  num_buttons :: int
  profiles :: "ratbag_profile list"

type_synonym profile_h = "ratbag_device \<times> nat"
type_synonym resolution_h = "profile_h \<times> nat"
type_synonym button_h = "profile_h \<times> nat"

datatype handle =
    HDevice ratbag_device
  | HProfile profile_h
  | HResolution resolution_h
  | HButton button_h

text \<open>The calls that write to the device, with their arguments.\<close>

datatype mutation =
    Profile_set_active profile_h
  | Resolution_set_dpi resolution_h int
  | Button_set_button button_h "32 word"
  | Button_set_key button_h "32 word"
  | Button_set_special button_h int
  | Button_set_macro button_h "string option"
  | Button_set_macro_event button_h nat ratbag_macro_event_type nat
  | Button_write_macro button_h
  | Button_disable button_h

text \<open>
  \<^verbatim>\<open>struct ratbag\<close>, the library context every handler receives. The model keeps in
  it all that the program obtains from outside: which paths open as which device, the
  return code of each writing call, the entries of \<^verbatim>\<open>/dev/input\<close> as
  \<^verbatim>\<open>scandir\<close> with \<^verbatim>\<open>alphasort\<close> lists them (\<open>None\<close> when it fails), the key-name
  table of libevdev, \<^verbatim>\<open>str_to_special_action\<close> of \<^verbatim>\<open>shared.h\<close> (\<open>- 1\<close> is
  \<^verbatim>\<open>RATBAG_BUTTON_ACTION_SPECIAL_INVALID\<close>), and the \<^verbatim>\<open>int\<close> that the
  \<^verbatim>\<open>double\<close> returned by \<^verbatim>\<open>strtod\<close> converts to.
\<close>

record ratbag =
  open_path :: "string \<Rightarrow> ratbag_device option"
  write_rc :: "mutation \<Rightarrow> int"
  dev_input :: "string list option"
  event_code_from_name :: "string \<Rightarrow> int"
  special_action_from_str :: "string \<Rightarrow> int"
  strtod_int :: "string \<Rightarrow> int"

text \<open>
  What the program does to the outside is recorded: its output, the queries of an active
  flag, the writing calls, and the references it holds.
\<close>

datatype arg = I int | S string | Null | Strerror int

datatype event =
    Printf string "arg list"
  | Error string "arg list"
  | Usage
  | Profile_is_active profile_h
  | Resolution_is_active resolution_h
  | Mutation mutation
  | Log_set_priority string

record state =
  log :: "event list"
  live :: "handle list"
  over_released :: bool

type_synonym 'a io = "state \<Rightarrow> ('a \<times> state) option"

definition emit :: "event \<Rightarrow> state \<Rightarrow> state" where
  "emit e s = s\<lparr>log := log s @ [e]\<rparr>"

definition printf :: "string \<Rightarrow> arg list \<Rightarrow> state \<Rightarrow> state" where
  "printf fmt as s = emit (Printf fmt as) s"

definition error :: "string \<Rightarrow> arg list \<Rightarrow> state \<Rightarrow> state" where
  "error fmt as s = emit (Error fmt as) s"

definition acquire :: "handle \<Rightarrow> state \<Rightarrow> state" where
  "acquire h s = s\<lparr>live := h # live s\<rparr>"

definition release :: "handle \<Rightarrow> state \<Rightarrow> state" where
  "release h s =
     (if h \<in> set (live s) then s\<lparr>live := remove1 h (live s)\<rparr>
      else s\<lparr>over_released := True\<rparr>)"

text \<open>
  Modelled from the spec: the collaborator interface of libratbag and
  \<^verbatim>\<open>ratbag_cmd_open_device\<close> of \<^verbatim>\<open>shared.h\<close>, whose code is not in the file
  ("open-device-by-path; enumerate devices/profiles/resolutions with stable indices;
  query/set active and default flags; query capability flags; reference-count release
  for device/profile/resolution/button handles"). Every call that returns a handle gives
  the caller one reference; an index outside the item count gives \<^verbatim>\<open>NULL\<close>, which is
  what the source tests for; the unref functions accept \<^verbatim>\<open>NULL\<close>, as \<^verbatim>\<open>main\<close>
  relies on; every other call reads its handle, so with \<^verbatim>\<open>NULL\<close> it does not return
  (\<open>None\<close>).
\<close>

definition ratbag_cmd_open_device :: "ratbag \<Rightarrow> string \<Rightarrow> (ratbag_device option) io" where
  "ratbag_cmd_open_device ratbag path s =
     (case open_path ratbag path of
        None \<Rightarrow> Some (None, s)
      | Some d \<Rightarrow> Some (Some d, acquire (HDevice d) s))"

definition ratbag_device_unref :: "ratbag_device option \<Rightarrow> state \<Rightarrow> state" where
  "ratbag_device_unref dev s = (case dev of None \<Rightarrow> s | Some d \<Rightarrow> release (HDevice d) s)"

definition ratbag_profile_unref :: "profile_h option \<Rightarrow> state \<Rightarrow> state" where
  "ratbag_profile_unref prof s = (case prof of None \<Rightarrow> s | Some p \<Rightarrow> release (HProfile p) s)"

definition ratbag_resolution_unref :: "resolution_h option \<Rightarrow> state \<Rightarrow> state" where
  "ratbag_resolution_unref res s =
     (case res of None \<Rightarrow> s | Some r \<Rightarrow> release (HResolution r) s)"

definition ratbag_button_unref :: "button_h option \<Rightarrow> state \<Rightarrow> state" where
  "ratbag_button_unref btn s = (case btn of None \<Rightarrow> s | Some b \<Rightarrow> release (HButton b) s)"

definition ratbag_device_get_name :: "ratbag_device option \<Rightarrow> string option" where
  "ratbag_device_get_name dev = map_option device_name dev"

definition ratbag_device_has_capability ::
  "ratbag_device option \<Rightarrow> ratbag_device_capability \<Rightarrow> bool option" where
  "ratbag_device_has_capability dev cap = map_option (\<lambda>d. cap \<in> set (capabilities d)) dev"

definition ratbag_device_get_num_profiles :: "ratbag_device option \<Rightarrow> int option" where
  "ratbag_device_get_num_profiles dev = map_option (\<lambda>d. int (length (profiles d))) dev"

definition ratbag_device_get_num_buttons :: "ratbag_device option \<Rightarrow> int option" where
  "ratbag_device_get_num_buttons dev = map_option num_buttons dev"

definition ratbag_device_get_profile_by_index ::
  "ratbag_device option \<Rightarrow> int \<Rightarrow> (profile_h option) io" where
  "ratbag_device_get_profile_by_index dev i s =
     (case dev of
        None \<Rightarrow> None
      | Some d \<Rightarrow>
          if 0 \<le> i \<and> i < int (length (profiles d))
          then Some (Some (d, nat i), acquire (HProfile (d, nat i)) s)
          else Some (None, s))"

definition the_profile :: "profile_h \<Rightarrow> ratbag_profile" where
  "the_profile p = profiles (fst p) ! snd p"

definition ratbag_profile_is_active :: "profile_h option \<Rightarrow> bool io" where
  "ratbag_profile_is_active prof s =
     (case prof of
        None \<Rightarrow> None
      | Some p \<Rightarrow> Some (profile_active (the_profile p), emit (Profile_is_active p) s))"

definition ratbag_profile_is_default :: "profile_h option \<Rightarrow> bool option" where
  "ratbag_profile_is_default prof = map_option (\<lambda>p. profile_default (the_profile p)) prof"

definition ratbag_profile_get_num_resolutions :: "profile_h option \<Rightarrow> int option" where
  "ratbag_profile_get_num_resolutions prof =
     map_option (\<lambda>p. int (length (resolutions (the_profile p)))) prof"

definition ratbag_profile_get_resolution ::
  "profile_h option \<Rightarrow> int \<Rightarrow> (resolution_h option) io" where
  "ratbag_profile_get_resolution prof i s =
     (case prof of
        None \<Rightarrow> None
      | Some p \<Rightarrow>
          if 0 \<le> i \<and> i < int (length (resolutions (the_profile p)))
          then Some (Some (p, nat i), acquire (HResolution (p, nat i)) s)
          else Some (None, s))"

definition ratbag_profile_get_button_by_index ::
  "profile_h option \<Rightarrow> int \<Rightarrow> (button_h option) io" where
  "ratbag_profile_get_button_by_index prof i s =
     (case prof of
        None \<Rightarrow> None
      | Some p \<Rightarrow>
          if 0 \<le> i \<and> i < int (length (buttons (the_profile p)))
          then Some (Some (p, nat i), acquire (HButton (p, nat i)) s)
          else Some (None, s))"

definition ratbag_profile_set_active :: "ratbag \<Rightarrow> profile_h option \<Rightarrow> int io" where
  "ratbag_profile_set_active ratbag prof s =
     (case prof of
        None \<Rightarrow> None
      | Some p \<Rightarrow>
          Some (write_rc ratbag (Profile_set_active p), emit (Mutation (Profile_set_active p)) s))"

definition the_resolution :: "resolution_h \<Rightarrow> ratbag_resolution" where
  "the_resolution r = resolutions (the_profile (fst r)) ! snd r"

definition ratbag_resolution_is_active :: "resolution_h option \<Rightarrow> bool io" where
  "ratbag_resolution_is_active res s =
     (case res of
        None \<Rightarrow> None
      | Some r \<Rightarrow>
          Some (resolution_active (the_resolution r), emit (Resolution_is_active r) s))"

definition ratbag_resolution_get_dpi :: "resolution_h option \<Rightarrow> int option" where
  "ratbag_resolution_get_dpi res = map_option (\<lambda>r. dpi (the_resolution r)) res"

definition ratbag_resolution_get_dpi_x :: "resolution_h option \<Rightarrow> int option" where
  "ratbag_resolution_get_dpi_x res = map_option (\<lambda>r. dpi_x (the_resolution r)) res"

definition ratbag_resolution_get_dpi_y :: "resolution_h option \<Rightarrow> int option" where
  "ratbag_resolution_get_dpi_y res = map_option (\<lambda>r. dpi_y (the_resolution r)) res"

definition ratbag_resolution_get_report_rate :: "resolution_h option \<Rightarrow> int option" where
  "ratbag_resolution_get_report_rate res = map_option (\<lambda>r. report_rate (the_resolution r)) res"

definition ratbag_resolution_is_default :: "resolution_h option \<Rightarrow> bool option" where
  "ratbag_resolution_is_default res =
     map_option (\<lambda>r. resolution_default (the_resolution r)) res"

definition ratbag_resolution_has_capability :: "resolution_h option \<Rightarrow> bool option" where
  "ratbag_resolution_has_capability res =
     map_option (\<lambda>r. separate_xy_resolution (the_resolution r)) res"

definition ratbag_resolution_set_dpi :: "ratbag \<Rightarrow> resolution_h option \<Rightarrow> int \<Rightarrow> int io" where
  "ratbag_resolution_set_dpi ratbag res v s =
     (case res of
        None \<Rightarrow> None
      | Some r \<Rightarrow>
          Some (write_rc ratbag (Resolution_set_dpi r v),
                emit (Mutation (Resolution_set_dpi r v)) s))"

definition the_button :: "button_h \<Rightarrow> ratbag_button" where
  "the_button b = buttons (the_profile (fst b)) ! snd b"

definition ratbag_button_get_key :: "button_h option \<Rightarrow> nat option" where
  "ratbag_button_get_key btn = map_option (\<lambda>b. button_key (the_button b)) btn"

definition ratbag_button_get_action_type ::
  "button_h option \<Rightarrow> ratbag_button_action_type option" where
  "ratbag_button_get_action_type btn = map_option (\<lambda>b. button_action_type (the_button b)) btn"

text \<open>
  \<^verbatim>\<open>button_type_to_str (ratbag_button_get_type button)\<close> and
  \<^verbatim>\<open>button_action_to_str button\<close>, as the strings they give.
\<close>

definition button_type_to_str :: "button_h option \<Rightarrow> string option" where
  "button_type_to_str btn = map_option (\<lambda>b. button_type_str (the_button b)) btn"

definition button_action_to_str :: "button_h option \<Rightarrow> string option" where
  "button_action_to_str btn = map_option (\<lambda>b. button_action_str (the_button b)) btn"

definition ratbag_button_write ::
  "ratbag \<Rightarrow> button_h option \<Rightarrow> (button_h \<Rightarrow> mutation) \<Rightarrow> int io" where
  "ratbag_button_write ratbag btn call s =
     (case btn of
        None \<Rightarrow> None
      | Some b \<Rightarrow> Some (write_rc ratbag (call b), emit (Mutation (call b)) s))"

definition ratbag_button_set_button :: "ratbag \<Rightarrow> button_h option \<Rightarrow> 32 word \<Rightarrow> int io" where
  "ratbag_button_set_button ratbag btn v = ratbag_button_write ratbag btn (\<lambda>b. Button_set_button b v)"

definition ratbag_button_set_key :: "ratbag \<Rightarrow> button_h option \<Rightarrow> 32 word \<Rightarrow> int io" where
  "ratbag_button_set_key ratbag btn v = ratbag_button_write ratbag btn (\<lambda>b. Button_set_key b v)"

definition ratbag_button_set_special :: "ratbag \<Rightarrow> button_h option \<Rightarrow> int \<Rightarrow> int io" where
  "ratbag_button_set_special ratbag btn v =
     ratbag_button_write ratbag btn (\<lambda>b. Button_set_special b v)"

definition ratbag_button_set_macro :: "ratbag \<Rightarrow> button_h option \<Rightarrow> string option \<Rightarrow> int io"
  where
  "ratbag_button_set_macro ratbag btn nm = ratbag_button_write ratbag btn (\<lambda>b. Button_set_macro b nm)"

definition ratbag_button_set_macro_event ::
  "ratbag \<Rightarrow> button_h option \<Rightarrow> nat \<Rightarrow> ratbag_macro_event_type \<Rightarrow> nat \<Rightarrow> int io" where
  "ratbag_button_set_macro_event ratbag btn i ty data =
     ratbag_button_write ratbag btn (\<lambda>b. Button_set_macro_event b i ty data)"

definition ratbag_button_write_macro :: "ratbag \<Rightarrow> button_h option \<Rightarrow> int io" where
  "ratbag_button_write_macro ratbag btn = ratbag_button_write ratbag btn Button_write_macro"

definition ratbag_button_disable :: "ratbag \<Rightarrow> button_h option \<Rightarrow> int io" where
  "ratbag_button_disable ratbag btn = ratbag_button_write ratbag btn Button_disable"

section \<open>The C library\<close>

text \<open>
  \<^verbatim>\<open>atoi\<close>, as glibc has it, \<^verbatim>\<open>(int) strtol(str, NULL, 10)\<close>: white space, an
  optional sign, then the decimal digits up to the first other character. \<^verbatim>\<open>strtol\<close>
  saturates at the ends of \<^verbatim>\<open>long\<close>, which has 64 bits, and the conversion to
  \<^verbatim>\<open>int\<close> keeps the low 32 bits, read as a signed number.
\<close>

definition isspace :: "char \<Rightarrow> bool" where
  "isspace c = (c \<in> set [CHR '' '', CHR 0x09, CHR 0x0A, CHR 0x0B, CHR 0x0C, CHR 0x0D])"

definition isdigit :: "char \<Rightarrow> bool" where
  "isdigit c = (c \<in> set ''0123456789'')"

definition isxdigit :: "char \<Rightarrow> bool" where
  "isxdigit c = (c \<in> set ''0123456789abcdefABCDEF'')"

definition digit_val :: "char \<Rightarrow> int" where
  "digit_val c = int (of_char c) - 48"

definition sign_len :: "string \<Rightarrow> nat" where
  "sign_len str =
     (case str of [] \<Rightarrow> 0 | c # _ \<Rightarrow> if c = CHR ''+'' \<or> c = CHR ''-'' then 1 else 0)"

definition to_int32 :: "int \<Rightarrow> int" where
  "to_int32 v = (v + 2147483648) mod 4294967296 - 2147483648"

definition atoi :: "string \<Rightarrow> int" where
  "atoi str =
     (let t = dropWhile isspace str;
          u = drop (sign_len t) t;
          v = foldl (\<lambda>acc c. 10 * acc + digit_val c) 0 (takeWhile isdigit u);
          l = (if take 1 t = ''-'' then - v else v)
      in to_int32 (max (- 9223372036854775808) (min 9223372036854775807 l)))"

text \<open>
  \<^verbatim>\<open>strtod\<close>, as far as its end pointer goes: \<open>strtod_endp str\<close> is the number of
  characters of \<open>str\<close> that the conversion consumes in the C locale, so \<^verbatim>\<open>endp\<close> is
  \<open>drop (strtod_endp str) str\<close> and \<^verbatim>\<open>endp == str\<close> exactly when it is \<open>0\<close>. The
  subject sequence is white space, an optional sign, and then a decimal floating constant,
  a hexadecimal one, \<^verbatim>\<open>INF\<close> or \<^verbatim>\<open>INFINITY\<close>, or \<^verbatim>\<open>NAN\<close> with an optional
  parenthesised character sequence, without regard to case.
\<close>

definition to_upper :: "char \<Rightarrow> char" where
  "to_upper c =
     (case map_of (zip ''abcdefghijklmnopqrstuvwxyz'' ''ABCDEFGHIJKLMNOPQRSTUVWXYZ'') c of
        None \<Rightarrow> c | Some u \<Rightarrow> u)"

fun starts_with_nocase :: "string \<Rightarrow> string \<Rightarrow> bool" where
  "starts_with_nocase [] str = True"
| "starts_with_nocase (p # ps) [] = False"
| "starts_with_nocase (p # ps) (c # cs) = ((c = p \<or> c = to_upper p) \<and> starts_with_nocase ps cs)"

definition strtod_mantissa :: "(char \<Rightarrow> bool) \<Rightarrow> string \<Rightarrow> nat" where
  "strtod_mantissa dig str =
     (let a = takeWhile dig str; r = dropWhile dig str
      in case r of
           [] \<Rightarrow> length a
         | c # r' \<Rightarrow>
             if c = CHR ''.''
             then (let b = takeWhile dig r'
                   in if a = [] \<and> b = [] then 0 else length a + 1 + length b)
             else length a)"

definition strtod_exponent :: "string \<Rightarrow> string \<Rightarrow> nat" where
  "strtod_exponent marks str =
     (case str of
        [] \<Rightarrow> 0
      | e # r \<Rightarrow>
          if e \<in> set marks
          then (let ds = takeWhile isdigit (drop (sign_len r) r)
                in if ds = [] then 0 else 1 + sign_len r + length ds)
          else 0)"

definition strtod_nan_chars :: "string \<Rightarrow> nat" where
  "strtod_nan_chars str =
     (case str of
        [] \<Rightarrow> 0
      | c # r \<Rightarrow>
          if c = CHR ''(''
          then (let is_nchar = (\<lambda>x. isdigit x \<or> x = CHR ''_'' \<or>
                       x \<in> set ''abcdefghijklmnopqrstuvwxyzABCDEFGHIJKLMNOPQRSTUVWXYZ'');
                    n = takeWhile is_nchar r
                in if take 1 (dropWhile is_nchar r) = '')'' then length n + 2 else 0)
          else 0)"

definition strtod_number :: "string \<Rightarrow> nat" where
  "strtod_number str =
     (if starts_with_nocase ''infinity'' str then 8
      else if starts_with_nocase ''inf'' str then 3
      else if starts_with_nocase ''nan'' str then 3 + strtod_nan_chars (drop 3 str)
      else if starts_with_nocase ''0x'' str \<and> strtod_mantissa isxdigit (drop 2 str) \<noteq> 0
      then (let m = strtod_mantissa isxdigit (drop 2 str)
            in 2 + m + strtod_exponent ''pP'' (drop (2 + m) str))
      else (let m = strtod_mantissa isdigit str
            in if m = 0 then 0 else m + strtod_exponent ''eE'' (drop m str)))"

definition strtod_endp :: "string \<Rightarrow> nat" where
  "strtod_endp str =
     (let w = length (takeWhile isspace str);
          t = drop w str;
          n = strtod_number (drop (sign_len t) t)
      in if n = 0 then 0 else w + sign_len t + n)"

text \<open>
  \<^verbatim>\<open>(int) strtod(str, &endp)\<close>, as glibc and x86-64 have it. The subject sequence
  denotes a rational \<open>p / q\<close>; \<^verbatim>\<open>strtod\<close> returns the \<^verbatim>\<open>double\<close> nearest to it, ties
  to the even significand, and the conversion to \<^verbatim>\<open>int\<close> truncates toward zero.
  Where the \<^verbatim>\<open>double\<close> has no \<^verbatim>\<open>int\<close> (too large, infinite or not a number) the
  conversion instruction gives \<^verbatim>\<open>INT_MIN\<close>. \<open>double_to_int neg p q\<close> is the
  \<^verbatim>\<open>int\<close> for the sign \<open>neg\<close> and the magnitude \<open>p / q\<close>: below
  \<open>2 ^ 31\<close> the nearest \<^verbatim>\<open>double\<close> is \<open>m / 2 ^ sh\<close> for the rounded 53-bit
  significand \<open>m\<close> (below \<open>1\<close> only the distance to \<open>1\<close> matters).
\<close>

definition xdigit_val :: "char \<Rightarrow> int" where
  "xdigit_val c =
     (if isdigit c then int (of_char c) - 48
      else if c \<in> set ''abcdef'' then int (of_char c) - 87
      else int (of_char c) - 55)"

definition digits_val :: "int \<Rightarrow> string \<Rightarrow> int" where
  "digits_val base ds = foldl (\<lambda>acc c. base * acc + xdigit_val c) 0 ds"

definition round_half_even :: "int \<Rightarrow> int \<Rightarrow> int" where
  "round_half_even a b =
     (let f = a div b; r = a mod b
      in if 2 * r < b \<or> (2 * r = b \<and> even f) then f else f + 1)"

function floor_log2 :: "int \<Rightarrow> nat" where
  "floor_log2 n = (if n < 2 then 0 else Suc (floor_log2 (n div 2)))"
  by pat_completeness auto

termination floor_log2
  by (relation "measure nat") auto

definition double_to_int :: "bool \<Rightarrow> int \<Rightarrow> int \<Rightarrow> int" where
  "double_to_int neg p q =
     (if 2147483648 \<le> p div q then - 2147483648
      else (let sh = (if p < q then 53 else 52 - floor_log2 (p div q));
                m = round_half_even (p * 2 ^ sh) q;
                n = m div 2 ^ sh
            in if 2147483648 \<le> n then - 2147483648 else if neg then - n else n))"

definition strtod_fraction :: "(char \<Rightarrow> bool) \<Rightarrow> string \<Rightarrow> string \<times> string" where
  "strtod_fraction dig str =
     (let r = dropWhile dig str
      in (takeWhile dig str, if take 1 r = ''.'' then takeWhile dig (drop 1 r) else []))"

definition strtod_exponent_val :: "string \<Rightarrow> string \<Rightarrow> int" where
  "strtod_exponent_val marks str =
     (case str of
        [] \<Rightarrow> 0
      | e # r \<Rightarrow>
          if e \<in> set marks
          then (let v = digits_val 10 (takeWhile isdigit (drop (sign_len r) r))
                in if take 1 r = ''-'' then - v else v)
          else 0)"

definition scaled_to_int :: "bool \<Rightarrow> int \<Rightarrow> int \<Rightarrow> int \<Rightarrow> int" where
  "scaled_to_int neg m base k =
     (if 0 \<le> k then double_to_int neg (m * base ^ nat k) 1
      else double_to_int neg m (base ^ nat (- k)))"

definition strtod_to_int :: "string \<Rightarrow> int" where
  "strtod_to_int str =
     (let t = dropWhile isspace str;
          neg = (take 1 t = ''-'');
          u = drop (sign_len t) t
      in if starts_with_nocase ''inf'' u \<or> starts_with_nocase ''nan'' u then - 2147483648
         else if starts_with_nocase ''0x'' u \<and> strtod_mantissa isxdigit (drop 2 u) \<noteq> 0
         then (let h = drop 2 u;
                   (a, b) = strtod_fraction isxdigit h;
                   e = strtod_exponent_val ''pP'' (drop (strtod_mantissa isxdigit h) h)
               in scaled_to_int neg (digits_val 16 (a @ b)) 2 (e - 4 * int (length b)))
         else if strtod_mantissa isdigit u = 0 then 0
         else (let (a, b) = strtod_fraction isdigit u;
                   e = strtod_exponent_val ''eE'' (drop (strtod_mantissa isdigit u) u)
               in scaled_to_int neg (digits_val 10 (a @ b)) 10 (e - int (length b))))"

section \<open>Commands, the resolved context and its resolution\<close>

text \<open>
  \<^verbatim>\<open>struct ratbag_cmd_options\<close> is the context of one invocation. A handler receives
  it by pointer and writes to it, so the model's handlers return it. \<^verbatim>\<open>argv\<close> is the
  list of the entries from the current pointer up to the terminating \<^verbatim>\<open>NULL\<close>, of
  which the first \<^verbatim>\<open>argc\<close> are the visible ones; an entry at or past the end reads
  as \<^verbatim>\<open>NULL\<close>.
\<close>

record ratbag_cmd_options =
  flags :: "32 word"
  device :: "ratbag_device option"
  profile :: "profile_h option"
  resolution :: "resolution_h option"
  button :: int

type_synonym handler =
  "ratbag \<Rightarrow> ratbag_cmd_options \<Rightarrow> int \<Rightarrow> string list \<Rightarrow> (int \<times> ratbag_cmd_options) io"

text \<open>
  \<^verbatim>\<open>struct ratbag_cmd\<close>. A handler receives its own node only to pass the node's
  \<^verbatim>\<open>subcommands\<close> on to \<^verbatim>\<open>run_subcommand\<close>; the handlers of the model take that
  list as their first argument where they use it. The \<^verbatim>\<open>flags\<close> and \<^verbatim>\<open>help\<close>
  members are \<open>cmd_flags\<close> and \<open>cmd_help\<close> here.
\<close>

datatype ratbag_cmd =
  Ratbag_cmd (name: string) (cmd: "handler option") (args: "string option")
    (cmd_help: "string option") (cmd_flags: "32 word") (subcommands: "ratbag_cmd list")

definition argv_at :: "string list \<Rightarrow> int \<Rightarrow> string option" where
  "argv_at argv k = (if 0 \<le> k \<and> k < int (length argv) then Some (argv ! nat k) else None)"

definition ratbag_cmd_device_from_arg ::
  "ratbag \<Rightarrow> int \<Rightarrow> string list \<Rightarrow> (ratbag_device option \<times> int) io" where
  "ratbag_cmd_device_from_arg ratbag argc argv s =
     (if argc = 0
      then Some ((None, argc), emit Usage (error ''Missing device path.\<newline>'' [] s))
      else do {
        path \<leftarrow> argv_at argv (argc - 1);
        (dev, s) \<leftarrow> ratbag_cmd_open_device ratbag path s;
        if dev = None
        then Some ((None, argc), error ''Device '%s' is not supported\<newline>'' [S path] s)
        else Some ((dev, argc - 1), s)
      })"

text \<open>
  The loop of \<^verbatim>\<open>ratbag_cmd_get_active_profile\<close>, from index \<open>i\<close> on. The local
  \<^verbatim>\<open>profile\<close> is \<^verbatim>\<open>NULL\<close> whenever the loop is left at its end, so the error
  message is always printed there.
\<close>

function get_active_profile_from :: "ratbag_device option \<Rightarrow> int \<Rightarrow> (profile_h option) io" where
  "get_active_profile_from dev i s =
     do {
       n \<leftarrow> ratbag_device_get_num_profiles dev;
       if i < n
       then do {
         (prof, s) \<leftarrow> ratbag_device_get_profile_by_index dev i s;
         (act, s) \<leftarrow> ratbag_profile_is_active prof s;
         if act then Some (prof, s)
         else get_active_profile_from dev (i + 1) (ratbag_profile_unref prof s)
       }
       else Some (None, error ''Failed to retrieve the active profile\<newline>'' [] s)
     }"
  by pat_completeness auto
termination
  by (relation "measure (\<lambda>(dev, i, s). nat (the (ratbag_device_get_num_profiles dev) - i))") auto

definition ratbag_cmd_get_active_profile :: "ratbag_device option \<Rightarrow> (profile_h option) io" where
  "ratbag_cmd_get_active_profile dev s = get_active_profile_from dev 0 s"

function get_active_resolution_from :: "profile_h option \<Rightarrow> int \<Rightarrow> (resolution_h option) io"
  where
  "get_active_resolution_from prof i s =
     do {
       n \<leftarrow> ratbag_profile_get_num_resolutions prof;
       if i < n
       then do {
         (res, s) \<leftarrow> ratbag_profile_get_resolution prof i s;
         (act, s) \<leftarrow> ratbag_resolution_is_active res s;
         if act then Some (res, s)
         else get_active_resolution_from prof (i + 1) (ratbag_resolution_unref res s)
       }
       else Some (None, error ''Failed to retrieve the active resolution\<newline>'' [] s)
     }"
  by pat_completeness auto
termination
  by (relation "measure (\<lambda>(prof, i, s). nat (the (ratbag_profile_get_num_resolutions prof) - i))")
    auto

definition ratbag_cmd_get_active_resolution :: "profile_h option \<Rightarrow> (resolution_h option) io"
  where
  "ratbag_cmd_get_active_resolution prof s = get_active_resolution_from prof 0 s"

text \<open>
  \<^verbatim>\<open>fill_options\<close> returns the code, the context and the new value of \<^verbatim>\<open>*argc\<close>.
  Its three \<^verbatim>\<open>if\<close> statements follow each other, each with a \<^verbatim>\<open>return\<close> inside;
  \<open>fill_options_resolution\<close> is the function from its third statement on,
  \<open>fill_options_profile\<close> from its second, with the locals \<^verbatim>\<open>profile\<close> and
  \<^verbatim>\<open>device\<close> as arguments.
\<close>

definition fill_options_resolution ::
  "32 word \<Rightarrow> ratbag_cmd_options \<Rightarrow> int \<Rightarrow> profile_h option \<Rightarrow>
     (int \<times> ratbag_cmd_options \<times> int) io" where
  "fill_options_resolution fl options argc prof s =
     (if fl AND FLAG_NEED_RESOLUTION \<noteq> 0 \<and> resolution options = None
      then do {
        (res, s) \<leftarrow> ratbag_cmd_get_active_resolution prof s;
        if res = None then Some ((ERR_DEVICE, options, argc), s)
        else Some ((SUCCESS, options\<lparr>resolution := res\<rparr>, argc), s)
      }
      else Some ((SUCCESS, options, argc), s))"

definition fill_options_profile ::
  "32 word \<Rightarrow> ratbag_cmd_options \<Rightarrow> int \<Rightarrow> ratbag_device option \<Rightarrow>
     (int \<times> ratbag_cmd_options \<times> int) io" where
  "fill_options_profile fl options argc dev s =
     (if fl AND (FLAG_NEED_PROFILE OR FLAG_NEED_RESOLUTION) \<noteq> 0 \<and> profile options = None
      then do {
        (prof, s) \<leftarrow> ratbag_cmd_get_active_profile dev s;
        if prof = None then Some ((ERR_DEVICE, options, argc), s)
        else fill_options_resolution fl (options\<lparr>profile := prof\<rparr>) argc prof s
      }
      else fill_options_resolution fl options argc (profile options) s)"

definition fill_options ::
  "ratbag \<Rightarrow> ratbag_cmd_options \<Rightarrow> 32 word \<Rightarrow> int \<Rightarrow> string list \<Rightarrow>
     (int \<times> ratbag_cmd_options \<times> int) io" where
  "fill_options ratbag options fl argc argv s =
     (if fl AND (FLAG_NEED_DEVICE OR FLAG_NEED_PROFILE OR FLAG_NEED_RESOLUTION) \<noteq> 0 \<and>
         device options = None
      then do {
        ((dev, argc), s) \<leftarrow> ratbag_cmd_device_from_arg ratbag argc argv s;
        if dev = None then Some ((ERR_DEVICE, options, argc), s)
        else fill_options_profile fl (options\<lparr>device := dev\<rparr>) argc dev s
      }
      else fill_options_profile fl options argc (device options) s)"

text \<open>
  The loop of \<^verbatim>\<open>run_subcommand\<close>: \<^verbatim>\<open>sub\<close> starts as \<^verbatim>\<open>subcommands[0]\<close> and is
  then read with \<^verbatim>\<open>subcommands[i++]\<close> from \<open>i = 0\<close>, so the first entry is compared
  twice. \<open>subcommand_at\<close> reads the array, whose last entry is the \<^verbatim>\<open>NULL\<close> after
  the nodes. The loop returns from inside at the first match; \<open>find_subcommand\<close> gives
  the node it returns at.
\<close>

definition subcommand_at :: "ratbag_cmd list \<Rightarrow> nat \<Rightarrow> ratbag_cmd option" where
  "subcommand_at subs i = (if i < length subs then Some (subs ! i) else None)"

function find_subcommand ::
  "string \<Rightarrow> ratbag_cmd list \<Rightarrow> ratbag_cmd option \<Rightarrow> nat \<Rightarrow> ratbag_cmd option" where
  "find_subcommand command subs sub i =
     (case sub of
        None \<Rightarrow> None
      | Some c \<Rightarrow>
          if command = name c then Some c
          else find_subcommand command subs (subcommand_at subs i) (Suc i))"
  by pat_completeness auto
termination
  by (relation "measure (\<lambda>(command, subs, sub, i).
        (if sub = None then 0 else 1) + (Suc (length subs) - i))")
    (auto simp: subcommand_at_def)

text \<open>
  \<^verbatim>\<open>streq\<close> reads both strings, so a \<^verbatim>\<open>NULL\<close> command does not return once there
  is a node to compare it with.
\<close>

definition run_subcommand ::
  "string option \<Rightarrow> ratbag_cmd list \<Rightarrow> ratbag \<Rightarrow> ratbag_cmd_options \<Rightarrow> int \<Rightarrow> string list \<Rightarrow>
     (int \<times> ratbag_cmd_options) io" where
  "run_subcommand command subs ratbag options argc argv s =
     (case command of
        None \<Rightarrow>
          if subcommand_at subs 0 = None
          then Some ((ERR_USAGE, options), error ''Invalid subcommand '%s'\<newline>'' [Null] s)
          else None
      | Some c \<Rightarrow>
          (case find_subcommand c subs (subcommand_at subs 0) 0 of
             None \<Rightarrow>
               Some ((ERR_USAGE, options), error ''Invalid subcommand '%s'\<newline>'' [S c] s)
           | Some sub \<Rightarrow> do {
               ((rc, options, argc), s) \<leftarrow> fill_options ratbag options (cmd_flags sub) argc argv s;
               if rc \<noteq> SUCCESS then Some ((rc, options), s)
               else do {
                 handler \<leftarrow> cmd sub;
                 handler ratbag options (argc - 1) (tl argv) s
               }
             }))"

section \<open>The handlers\<close>

subsection \<open>\<^verbatim>\<open>info\<close>\<close>

function info_resolutions :: "profile_h option \<Rightarrow> int \<Rightarrow> state \<Rightarrow> state option" where
  "info_resolutions prof j s =
     do {
       n \<leftarrow> ratbag_profile_get_num_resolutions prof;
       if j < n
       then do {
         (res, s) \<leftarrow> ratbag_profile_get_resolution prof j s;
         d \<leftarrow> ratbag_resolution_get_dpi res;
         rate \<leftarrow> ratbag_resolution_get_report_rate res;
         s \<leftarrow>
           (if d = 0 then Some (printf ''      %d: <disabled>\<newline>'' [I j] s)
            else do {
              xy \<leftarrow> ratbag_resolution_has_capability res;
              x \<leftarrow> ratbag_resolution_get_dpi_x res;
              y \<leftarrow> ratbag_resolution_get_dpi_y res;
              (act, s) \<leftarrow> ratbag_resolution_is_active res s;
              dflt \<leftarrow> ratbag_resolution_is_default res;
              Some (if xy
                then printf ''      %d: %dx%ddpi @ %dHz%s%s\<newline>''
                       [I j, I x, I y, I rate, S (if act then '' (active)'' else []),
                        S (if dflt then '' (default)'' else [])] s
                else printf ''      %d: %ddpi @ %dHz%s%s\<newline>''
                       [I j, I d, I rate, S (if act then '' (active)'' else []),
                        S (if dflt then '' (default)'' else [])] s)
            });
         info_resolutions prof (j + 1) (ratbag_resolution_unref res s)
       }
       else Some s
     }"
  by pat_completeness auto
termination
  by (relation "measure (\<lambda>(prof, j, s). nat (the (ratbag_profile_get_num_resolutions prof) - j))")
    auto

function info_buttons :: "profile_h option \<Rightarrow> int \<Rightarrow> int \<Rightarrow> state \<Rightarrow> state option" where
  "info_buttons prof n b s =
     (if b < n
      then do {
        (btn, s) \<leftarrow> ratbag_profile_get_button_by_index prof b s;
        ty \<leftarrow> button_type_to_str btn;
        action \<leftarrow> button_action_to_str btn;
        info_buttons prof n (b + 1)
          (ratbag_button_unref btn
             (printf ''    Button: %d type %s is mapped to '%s'\<newline>'' [I b, S ty, S action] s))
      }
      else Some s)"
  by pat_completeness auto
termination
  by (relation "measure (\<lambda>(prof, n, b, s). nat (n - b))") auto

function info_profiles :: "ratbag_device option \<Rightarrow> int \<Rightarrow> int \<Rightarrow> int \<Rightarrow> state \<Rightarrow> state option"
  where
  "info_profiles dev num_profiles n i s =
     (if i < num_profiles
      then do {
        (prof, s) \<leftarrow> ratbag_device_get_profile_by_index dev i s;
        if prof = None then info_profiles dev num_profiles n (i + 1) s
        else do {
          (act, s) \<leftarrow> ratbag_profile_is_active prof s;
          dflt \<leftarrow> ratbag_profile_is_default prof;
          s \<leftarrow> info_resolutions prof 0
                 (printf ''    Resolutions:\<newline>'' []
                    (printf ''  Profile %d%s%s\<newline>''
                       [I i, S (if act then '' (active)'' else []),
                        S (if dflt then '' (default)'' else [])] s));
          s \<leftarrow> info_buttons prof n 0 s;
          info_profiles dev num_profiles n (i + 1) (ratbag_profile_unref prof s)
        }
      }
      else Some s)"
  by pat_completeness auto
termination
  by (relation "measure (\<lambda>(dev, num_profiles, n, i, s). nat (num_profiles - i))") auto

definition ratbag_cmd_info :: handler where
  "ratbag_cmd_info ratbag options argc argv s =
     (let dev = device options;
          cap_str = (\<lambda>cap str s. do {
            has \<leftarrow> ratbag_device_has_capability dev cap;
            Some (if has then printf str [] s else s)
          })
      in do {
        nm \<leftarrow> ratbag_device_get_name dev;
        s \<leftarrow> cap_str RATBAG_DEVICE_CAP_SWITCHABLE_RESOLUTION '' res''
               (printf ''Capabilities:'' [] (printf ''Device '%s'\<newline>'' [S nm] s));
        s \<leftarrow> cap_str RATBAG_DEVICE_CAP_SWITCHABLE_PROFILE '' profile'' s;
        s \<leftarrow> cap_str RATBAG_DEVICE_CAP_BUTTON_KEY '' btn-key'' s;
        s \<leftarrow> cap_str RATBAG_DEVICE_CAP_BUTTON_MACROS '' btn-macros'' s;
        n \<leftarrow> ratbag_device_get_num_buttons dev;
        num_profiles \<leftarrow> ratbag_device_get_num_profiles dev;
        s \<leftarrow> info_profiles dev num_profiles n 0
               (printf ''Profiles supported: %d\<newline>'' [I num_profiles]
                  (printf ''Number of buttons: %d\<newline>'' [I n] (printf ''\<newline>'' [] s)));
        Some ((SUCCESS, options), s)
      })"

subsection \<open>\<^verbatim>\<open>switch-etekcity\<close>\<close>

definition ratbag_cmd_switch_etekcity :: handler where
  "ratbag_cmd_switch_etekcity ratbag options argc argv s =
     (let dev = device options; prof = profile options
      in do {
        cap \<leftarrow> ratbag_device_has_capability dev RATBAG_DEVICE_CAP_SWITCHABLE_PROFILE;
        if \<not> cap
        then do {
          nm \<leftarrow> ratbag_device_get_name dev;
          Some ((ERR_UNSUPPORTED, options),
                error ''Device '%s' has no switchable profiles\<newline>'' [S nm] s)
        }
        else do {
          (button_6, s) \<leftarrow> ratbag_profile_get_button_by_index prof 6 s;
          (button_7, s) \<leftarrow> ratbag_profile_get_button_by_index prof 7 s;
          k6 \<leftarrow> ratbag_button_get_key button_6;
          volume \<leftarrow>
            (if k6 = KEY_VOLUMEUP
             then do { k7 \<leftarrow> ratbag_button_get_key button_7; Some (k7 = KEY_VOLUMEDOWN) }
             else Some False);
          (commit, s) \<leftarrow>
            (if volume
             then do {
               (rc, s) \<leftarrow> ratbag_button_disable ratbag button_6 s;
               (rc, s) \<leftarrow> ratbag_button_disable ratbag button_7 s;
               Some (1 :: int, s)
             }
             else do {
               t6 \<leftarrow> ratbag_button_get_action_type button_6;
               unset \<leftarrow>
                 (if t6 = RATBAG_BUTTON_ACTION_TYPE_NONE
                  then do {
                    t7 \<leftarrow> ratbag_button_get_action_type button_7;
                    Some (t7 = RATBAG_BUTTON_ACTION_TYPE_NONE)
                  }
                  else Some False);
               if unset
               then do {
                 (rc, s) \<leftarrow> ratbag_button_set_key ratbag button_6 (of_nat KEY_VOLUMEUP) s;
                 (rc, s) \<leftarrow> ratbag_button_set_key ratbag button_7 (of_nat KEY_VOLUMEDOWN) s;
                 Some (2, s)
               }
               else Some (0, s)
             });
          nm \<leftarrow> ratbag_device_get_name dev;
          Some ((SUCCESS, options),
                printf ''Switched the current profile of '%s' to %sreport the volume keys\<newline>''
                  [S nm, S (if commit = 1 then ''not '' else [])]
                  (ratbag_button_unref button_7 (ratbag_button_unref button_6 s)))
        }
      })"

subsection \<open>\<^verbatim>\<open>change-button\<close> and the macro encoder\<close>

text \<open>\<^verbatim>\<open>struct macro\<close>; \<open>macro_zero\<close> is the initialiser \<^verbatim>\<open>{0}\<close>.\<close>

record macro =
  macro_name :: "string option"
  events :: "(ratbag_macro_event_type \<times> nat) list"

definition macro_zero :: macro where
  "macro_zero = \<lparr>macro_name = None, events = replicate 64 (RATBAG_MACRO_EVENT_NONE, 0)\<rparr>"

definition str_to_macro :: "string option \<Rightarrow> macro \<Rightarrow> int \<times> macro" where
  "str_to_macro action_arg m =
     (case action_arg of
        None \<Rightarrow> (- EINVAL, m)
      | Some a \<Rightarrow>
          if take 1 a = ''f''
          then (0, m\<lparr>macro_name := Some ''foo'',
                     events := (events m)
                       [0 := (RATBAG_MACRO_EVENT_KEY_PRESSED, KEY_F),
                        1 := (RATBAG_MACRO_EVENT_KEY_RELEASED, KEY_F),
                        2 := (RATBAG_MACRO_EVENT_KEY_PRESSED, KEY_O),
                        3 := (RATBAG_MACRO_EVENT_KEY_RELEASED, KEY_O),
                        4 := (RATBAG_MACRO_EVENT_KEY_PRESSED, KEY_O),
                        5 := (RATBAG_MACRO_EVENT_KEY_RELEASED, KEY_O)]\<rparr>)
          else if take 1 a = ''b''
          then (0, m\<lparr>macro_name := Some ''bar'',
                     events := (events m)
                       [0 := (RATBAG_MACRO_EVENT_KEY_PRESSED, KEY_B),
                        1 := (RATBAG_MACRO_EVENT_KEY_RELEASED, KEY_B),
                        2 := (RATBAG_MACRO_EVENT_KEY_PRESSED, KEY_A),
                        3 := (RATBAG_MACRO_EVENT_KEY_RELEASED, KEY_A),
                        4 := (RATBAG_MACRO_EVENT_KEY_PRESSED, KEY_R),
                        5 := (RATBAG_MACRO_EVENT_KEY_RELEASED, KEY_R)]\<rparr>)
          else (0, m))"

text \<open>The loop that transfers the events, from index \<open>i\<close> on.\<close>

function macro_events_from :: "ratbag \<Rightarrow> button_h option \<Rightarrow> macro \<Rightarrow> nat \<Rightarrow> state \<Rightarrow> state option"
  where
  "macro_events_from ratbag btn m i s =
     (if i < 64
      then (if fst (events m ! i) = RATBAG_MACRO_EVENT_NONE then Some s
            else do {
              (rc, s) \<leftarrow> ratbag_button_set_macro_event ratbag btn i
                           (fst (events m ! i)) (snd (events m ! i)) s;
              macro_events_from ratbag btn m (i + 1) s
            })
      else Some s)"
  by pat_completeness auto
termination
  by (relation "measure (\<lambda>(ratbag, btn, m, i, s). 64 - i)") auto

definition ratbag_cmd_change_button :: handler where
  "ratbag_cmd_change_button ratbag options argc argv s =
     (if argc \<noteq> 3 then Some ((ERR_USAGE, options), s)
      else do {
        button_str \<leftarrow> argv_at argv 0;
        action_str \<leftarrow> argv_at argv 1;
        action_arg \<leftarrow> argv_at argv 2;
        let button_index = atoi button_str;
            out = (\<lambda>rc btn s. Some ((rc, options), ratbag_button_unref btn s));
            apply_action = (\<lambda>action_type btnkey special m s. do {
              cap \<leftarrow> ratbag_device_has_capability (device options) RATBAG_DEVICE_CAP_BUTTON_KEY;
              if \<not> cap
              then do {
                nm \<leftarrow> ratbag_device_get_name (device options);
                out ERR_UNSUPPORTED None
                  (error ''Device '%s' has no programmable buttons\<newline>'' [S nm] s)
              }
              else do {
                (btn, s) \<leftarrow> ratbag_profile_get_button_by_index (profile options) button_index s;
                if btn = None
                then out ERR_UNSUPPORTED None
                       (error ''Invalid button number %d\<newline>'' [I button_index] s)
                else do {
                  (rc, s) \<leftarrow>
                    (case action_type of
                       RATBAG_BUTTON_ACTION_TYPE_BUTTON \<Rightarrow>
                         ratbag_button_set_button ratbag btn btnkey s
                     | RATBAG_BUTTON_ACTION_TYPE_KEY \<Rightarrow>
                         ratbag_button_set_key ratbag btn btnkey s
                     | RATBAG_BUTTON_ACTION_TYPE_SPECIAL \<Rightarrow>
                         ratbag_button_set_special ratbag btn special s
                     | RATBAG_BUTTON_ACTION_TYPE_MACRO \<Rightarrow> do {
                         (rc, s) \<leftarrow> ratbag_button_set_macro ratbag btn (macro_name m) s;
                         s \<leftarrow> macro_events_from ratbag btn m 0 s;
                         ratbag_button_write_macro ratbag btn s
                       }
                     | _ \<Rightarrow> None);
                  if rc \<noteq> 0
                  then out ERR_UNSUPPORTED btn
                         (error ''Unable to perform button %d mapping %s %s\<newline>''
                            [I button_index, S action_str, S action_arg] s)
                  else do {
                    (rc, s) \<leftarrow> ratbag_profile_set_active ratbag (profile options) s;
                    if rc \<noteq> 0
                    then out ERR_DEVICE btn
                           (error ''Unable to apply the current profile: %s (%d)\<newline>''
                              [Strerror (- rc), I rc] s)
                    else out rc btn s
                  }
                }
              }
            })
        in
          if action_str = ''button''
          then apply_action RATBAG_BUTTON_ACTION_TYPE_BUTTON (word_of_int (atoi action_arg)) 0
                 macro_zero s
          else if action_str = ''key''
          then (let btnkey = word_of_int (event_code_from_name ratbag action_arg)
                in if btnkey = 0
                   then Some ((ERR_USAGE, options),
                              error ''Failed to resolve key %s\<newline>'' [S action_arg] s)
                   else apply_action RATBAG_BUTTON_ACTION_TYPE_KEY btnkey 0 macro_zero s)
          else if action_str = ''special''
          then (let special = special_action_from_str ratbag action_arg
                in if special = - 1
                   then Some ((ERR_USAGE, options),
                              error ''Invalid special command '%s'\<newline>'' [S action_arg] s)
                   else apply_action RATBAG_BUTTON_ACTION_TYPE_SPECIAL 0 special macro_zero s)
          else if action_str = ''macro''
          then (let (r, m) = str_to_macro (Some action_arg) macro_zero
                in if r \<noteq> 0
                   then Some ((ERR_USAGE, options),
                              error ''Invalid special command '%s'\<newline>'' [S action_arg] s)
                   else apply_action RATBAG_BUTTON_ACTION_TYPE_MACRO 0 0 m s)
          else Some ((ERR_USAGE, options), s)
      })"

subsection \<open>\<^verbatim>\<open>list\<close>\<close>

definition filter_event_node :: "string \<Rightarrow> bool" where
  "filter_event_node d_name = (take 5 d_name = ''event'')"

fun list_devices_from :: "ratbag \<Rightarrow> string list \<Rightarrow> nat \<Rightarrow> nat io" where
  "list_devices_from ratbag [] supported s = Some (supported, s)"
| "list_devices_from ratbag (d_name # input_list) supported s =
     (let path = ''/dev/input/'' @ d_name
      in do {
        (dev, s) \<leftarrow> ratbag_cmd_open_device ratbag path s;
        if dev \<noteq> None
        then do {
          nm \<leftarrow> ratbag_device_get_name dev;
          list_devices_from ratbag input_list (supported + 1)
            (ratbag_device_unref dev (printf (''%s:'' @ [CHR 0x09] @ ''%s\<newline>'') [S path, S nm] s))
        }
        else list_devices_from ratbag input_list supported s
      })"

definition ratbag_cmd_list_supported_devices :: handler where
  "ratbag_cmd_list_supported_devices ratbag options argc argv s =
     (if argc \<noteq> 0 then Some ((ERR_USAGE, options), s)
      else case dev_input ratbag of
        None \<Rightarrow> Some ((SUCCESS, options), s)
      | Some entries \<Rightarrow> do {
          (supported, s) \<leftarrow> list_devices_from ratbag (filter filter_event_node entries) 0 s;
          Some ((SUCCESS, options),
                if supported = 0 then printf ''No supported devices found\<newline>'' [] s else s)
        })"

subsection \<open>\<^verbatim>\<open>resolution\<close>\<close>

definition ratbag_cmd_resolution_active_set :: handler where
  "ratbag_cmd_resolution_active_set ratbag options argc argv s =
     Some ((SUCCESS, options), printf ''Not yet implemented\<newline>'' [] s)"

definition ratbag_cmd_resolution_active_get :: handler where
  "ratbag_cmd_resolution_active_get ratbag options argc argv s =
     Some ((SUCCESS, options), printf ''Not yet implemented\<newline>'' [] s)"

definition ratbag_cmd_resolution_active :: "ratbag_cmd list \<Rightarrow> handler" where
  "ratbag_cmd_resolution_active subs ratbag options argc argv s =
     (if argc < 1 then Some ((ERR_USAGE, options), s)
      else run_subcommand (argv_at argv 0) subs ratbag options argc argv s)"

definition ratbag_cmd_resolution_dpi_get :: handler where
  "ratbag_cmd_resolution_dpi_get ratbag options argc argv s =
     do {
       d \<leftarrow> ratbag_resolution_get_dpi (resolution options);
       Some ((SUCCESS, options), printf ''%d\<newline>'' [I d] s)
     }"

definition ratbag_cmd_resolution_dpi_set :: handler where
  "ratbag_cmd_resolution_dpi_set ratbag options argc argv s =
     (if argc \<noteq> 1 then Some ((ERR_USAGE, options), s)
      else do {
        dpi_str \<leftarrow> argv_at argv 0;
        cap \<leftarrow> ratbag_device_has_capability (device options)
                 RATBAG_DEVICE_CAP_SWITCHABLE_RESOLUTION;
        if \<not> cap
        then do {
          nm \<leftarrow> ratbag_device_get_name (device options);
          Some ((ERR_UNSUPPORTED, options),
                error ''Device '%s' has no switchable resolution\<newline>'' [S nm] s)
        }
        else do {
          (rc, s) \<leftarrow> ratbag_resolution_set_dpi ratbag (resolution options) (atoi dpi_str) s;
          if rc \<noteq> 0
          then Some ((ERR_DEVICE, options),
                     error ''Failed to change the dpi: %s (%d)\<newline>'' [Strerror (- rc), I rc] s)
          else Some ((rc, options), s)
        }
      })"

definition ratbag_cmd_resolution_dpi :: "ratbag_cmd list \<Rightarrow> handler" where
  "ratbag_cmd_resolution_dpi subs ratbag options argc argv s =
     (if argc < 1 then Some ((ERR_USAGE, options), s)
      else run_subcommand (argv_at argv 0) subs ratbag options argc argv s)"

text \<open>
  \<^verbatim>\<open>strtod\<close> reads its argument, so a \<^verbatim>\<open>NULL\<close> command does not return. The index
  is the \<^verbatim>\<open>int\<close> the result converts to; the token is an index when the conversion
  consumed something and stopped at the end of the token.
\<close>

definition ratbag_cmd_resolution :: "ratbag_cmd list \<Rightarrow> handler" where
  "ratbag_cmd_resolution subs ratbag options argc argv s =
     (if argc < 1 then Some ((ERR_USAGE, options), s)
      else do {
        command \<leftarrow> argv_at argv 0;
        let prof = profile options;
            resolution_idx = strtod_int ratbag command;
            endp = strtod_endp command
        in
          if endp \<noteq> 0 \<and> drop endp command = []
          then do {
            (res, s) \<leftarrow> ratbag_profile_get_resolution prof resolution_idx s;
            if res = None
            then Some ((ERR_UNSUPPORTED, options),
                       error ''Unable to retrieve resolution %d\<newline>'' [I resolution_idx] s)
            else run_subcommand (argv_at (tl argv) 0) subs ratbag
                   (options\<lparr>resolution := res\<rparr>) (argc - 1) (tl argv) s
          }
          else do {
            (res, s) \<leftarrow> ratbag_cmd_get_active_resolution prof s;
            if res = None then Some ((ERR_DEVICE, options), s)
            else run_subcommand (Some command) subs ratbag
                   (options\<lparr>resolution := res\<rparr>) argc argv s
          }
      })"

subsection \<open>\<^verbatim>\<open>button\<close>\<close>

definition ratbag_cmd_button :: "ratbag_cmd list \<Rightarrow> handler" where
  "ratbag_cmd_button subs ratbag options argc argv s =
     (if argc < 2 then Some ((ERR_USAGE, options), s)
      else do {
        command \<leftarrow> argv_at argv 1;
        let endp = strtod_endp command
        in
          if endp \<noteq> 0 \<and> drop endp command = []
          then run_subcommand (Some command) subs ratbag
                 (options\<lparr>button := strtod_int ratbag command\<rparr>) (argc - 1) (tl argv) s
          else run_subcommand (Some command) subs ratbag options argc argv s
      })"

subsection \<open>\<^verbatim>\<open>profile\<close>\<close>

definition ratbag_cmd_profile_active_set :: handler where
  "ratbag_cmd_profile_active_set ratbag options argc argv s =
     (if argc \<noteq> 1 then Some ((ERR_USAGE, options), s)
      else do {
        index_str \<leftarrow> argv_at argv 0;
        let index = atoi index_str;
            dev = device options;
            out = (\<lambda>rc prof s.
              Some ((rc, options), ratbag_profile_unref None (ratbag_profile_unref prof s)))
        in
          if dev = None then Some ((ERR_DEVICE, options), s)
          else do {
            cap \<leftarrow> ratbag_device_has_capability dev RATBAG_DEVICE_CAP_SWITCHABLE_PROFILE;
            if \<not> cap
            then do {
              nm \<leftarrow> ratbag_device_get_name dev;
              out ERR_UNSUPPORTED None
                (error ''Device '%s' has no switchable profiles\<newline>'' [S nm] s)
            }
            else do {
              num_profiles \<leftarrow> ratbag_device_get_num_profiles dev;
              if index > num_profiles
              then out ERR_UNSUPPORTED None
                     (error '''%d' is not a valid profile\<newline>'' [I index] s)
              else do {
                (prof, s) \<leftarrow> ratbag_device_get_profile_by_index dev index s;
                (act, s) \<leftarrow> ratbag_profile_is_active prof s;
                if act
                then do {
                  nm \<leftarrow> ratbag_device_get_name dev;
                  out SUCCESS prof
                    (printf '''%s' is already in profile '%d'\<newline>'' [S nm, I index] s)
                }
                else do {
                  (rc, s) \<leftarrow> ratbag_profile_set_active ratbag prof s;
                  if rc = 0
                  then do {
                    nm \<leftarrow> ratbag_device_get_name dev;
                    out SUCCESS prof
                      (printf ''Switched '%s' to profile '%d'\<newline>'' [S nm, I index] s)
                  }
                  else out ERR_DEVICE prof s
                }
              }
            }
          }
      })"

text \<open>
  The loop of \<^verbatim>\<open>ratbag_cmd_profile_active_get\<close>, from index \<open>i\<close> on: it gives
  \<^verbatim>\<open>rc\<close>, \<^verbatim>\<open>active_profile_idx\<close> and \<^verbatim>\<open>profile\<close> as they are after the loop.
\<close>

function profile_active_get_from ::
  "ratbag_device option \<Rightarrow> int \<Rightarrow> int \<Rightarrow> (int \<times> int \<times> profile_h option) io" where
  "profile_active_get_from dev num_profiles i s =
     (if i < num_profiles
      then do {
        (prof, s) \<leftarrow> ratbag_device_get_profile_by_index dev i s;
        (act, s) \<leftarrow> ratbag_profile_is_active prof s;
        if act then Some ((SUCCESS, i, prof), s)
        else profile_active_get_from dev num_profiles (i + 1) (ratbag_profile_unref prof s)
      }
      else Some ((ERR_DEVICE, 0, None), s))"
  by pat_completeness auto
termination
  by (relation "measure (\<lambda>(dev, num_profiles, i, s). nat (num_profiles - i))") auto

definition ratbag_cmd_profile_active_get :: handler where
  "ratbag_cmd_profile_active_get ratbag options argc argv s =
     (let dev = device options;
          out = (\<lambda>rc active_profile_idx prof s.
            Some ((rc, options),
                  ratbag_profile_unref prof
                    (if rc = SUCCESS then printf ''%d\<newline>'' [I active_profile_idx] s else s)))
      in do {
        cap \<leftarrow> ratbag_device_has_capability dev RATBAG_DEVICE_CAP_SWITCHABLE_PROFILE;
        if \<not> cap then out SUCCESS 0 None s
        else do {
          num_profiles \<leftarrow> ratbag_device_get_num_profiles dev;
          if num_profiles \<le> 1 then out SUCCESS 0 None s
          else do {
            ((rc, active_profile_idx, prof), s) \<leftarrow> profile_active_get_from dev num_profiles 0 s;
            out rc active_profile_idx prof
              (if active_profile_idx \<ge> num_profiles
               then error ''Unable to find active profile, this is a bug.\<newline>'' [] s
               else s)
          }
        }
      })"

definition ratbag_cmd_profile_active :: "ratbag_cmd list \<Rightarrow> handler" where
  "ratbag_cmd_profile_active subs ratbag options argc argv s =
     (if argc < 1 then Some ((ERR_USAGE, options), s)
      else run_subcommand (argv_at argv 0) subs ratbag options argc argv s)"

definition ratbag_cmd_profile :: "ratbag_cmd list \<Rightarrow> handler" where
  "ratbag_cmd_profile subs ratbag options argc argv s =
     (let dev = device options
      in if argc < 1 then Some ((ERR_USAGE, options), s)
         else do {
           command \<leftarrow> argv_at argv 0;
           let profile_idx = strtod_int ratbag command;
               endp = strtod_endp command
           in
             if endp \<noteq> 0 \<and> drop endp command = []
             then do {
               (prof, s) \<leftarrow> ratbag_device_get_profile_by_index dev profile_idx s;
               if prof = None
               then Some ((ERR_UNSUPPORTED, options),
                          error ''Unable to find profile %d\<newline>'' [I profile_idx] s)
               else run_subcommand (argv_at (tl argv) 0) subs ratbag
                      (options\<lparr>profile := prof\<rparr>) (argc - 1) (tl argv) s
             }
             else do {
               (prof, s) \<leftarrow> ratbag_cmd_get_active_profile dev s;
               if prof = None then Some ((ERR_DEVICE, options), s)
               else run_subcommand (Some command) subs ratbag
                      (options\<lparr>profile := prof\<rparr>) argc argv s
             }
         })"

section \<open>The command tree\<close>

definition cmd_info :: ratbag_cmd where
  "cmd_info =
     Ratbag_cmd ''info'' (Some ratbag_cmd_info) None
       (Some ''Show information about the device's capabilities'') FLAG_NEED_DEVICE []"

definition cmd_switch_etekcity :: ratbag_cmd where
  "cmd_switch_etekcity =
     Ratbag_cmd ''switch-etekcity'' (Some ratbag_cmd_switch_etekcity) None
       (Some ''Switch the Etekcity mouse active profile'')
       (FLAG_NEED_DEVICE OR FLAG_NEED_PROFILE) []"

definition cmd_change_button :: ratbag_cmd where
  "cmd_change_button =
     Ratbag_cmd ''change-button'' (Some ratbag_cmd_change_button)
       (Some (''X <button|key|special|macro> '' @
              ''<number|KEY_FOO|special|macro name:KEY_FOO,KEY_BAR,...>''))
       (Some ''Remap button X to the given action in the active profile'')
       (FLAG_NEED_DEVICE OR FLAG_NEED_PROFILE) []"

definition cmd_list :: ratbag_cmd where
  "cmd_list =
     Ratbag_cmd ''list'' (Some ratbag_cmd_list_supported_devices) None
       (Some ''List the available devices'') 0 []"

definition cmd_resolution_active_set :: ratbag_cmd where
  "cmd_resolution_active_set =
     Ratbag_cmd ''set'' (Some ratbag_cmd_resolution_active_set) (Some ''M'')
       (Some ''Set the active resolution number'') (FLAG_NEED_DEVICE OR FLAG_NEED_PROFILE) []"

definition cmd_resolution_active_get :: ratbag_cmd where
  "cmd_resolution_active_get =
     Ratbag_cmd ''get'' (Some ratbag_cmd_resolution_active_get) None
       (Some ''Get the active resolution number'') (FLAG_NEED_DEVICE OR FLAG_NEED_PROFILE) []"

definition cmd_resolution_active :: ratbag_cmd where
  "cmd_resolution_active =
     Ratbag_cmd ''active''
       (Some (ratbag_cmd_resolution_active [cmd_resolution_active_get, cmd_resolution_active_set]))
       None None (FLAG_NEED_DEVICE OR FLAG_NEED_PROFILE)
       [cmd_resolution_active_get, cmd_resolution_active_set]"

definition cmd_resolution_dpi_get :: ratbag_cmd where
  "cmd_resolution_dpi_get =
     Ratbag_cmd ''get'' (Some ratbag_cmd_resolution_dpi_get) None
       (Some ''Get the resolution in dpi'')
       (FLAG_NEED_DEVICE OR FLAG_NEED_PROFILE OR FLAG_NEED_RESOLUTION) []"

definition cmd_resolution_dpi_set :: ratbag_cmd where
  "cmd_resolution_dpi_set =
     Ratbag_cmd ''set'' (Some ratbag_cmd_resolution_dpi_set) (Some ''<dpi>'')
       (Some ''Set the resolution in dpi'')
       (FLAG_NEED_DEVICE OR FLAG_NEED_PROFILE OR FLAG_NEED_RESOLUTION) []"

definition cmd_resolution_dpi :: ratbag_cmd where
  "cmd_resolution_dpi =
     Ratbag_cmd ''dpi''
       (Some (ratbag_cmd_resolution_dpi [cmd_resolution_dpi_get, cmd_resolution_dpi_set]))
       None None (FLAG_NEED_DEVICE OR FLAG_NEED_PROFILE OR FLAG_NEED_RESOLUTION)
       [cmd_resolution_dpi_get, cmd_resolution_dpi_set]"

definition cmd_resolution :: ratbag_cmd where
  "cmd_resolution =
     Ratbag_cmd ''resolution''
       (Some (ratbag_cmd_resolution [cmd_resolution_active, cmd_resolution_dpi]))
       (Some ''N'') None (FLAG_NEED_DEVICE OR FLAG_NEED_PROFILE)
       [cmd_resolution_active, cmd_resolution_dpi]"

definition cmd_button :: ratbag_cmd where
  "cmd_button =
     Ratbag_cmd ''button'' (Some (ratbag_cmd_button [])) (Some ''[...]'')
       (Some ''Modify a button'') (FLAG_NEED_DEVICE OR FLAG_NEED_PROFILE) []"

definition cmd_profile_active_set :: ratbag_cmd where
  "cmd_profile_active_set =
     Ratbag_cmd ''set'' (Some ratbag_cmd_profile_active_set) (Some ''N'')
       (Some ''Set the active profile number'') FLAG_NEED_DEVICE []"

definition cmd_profile_active_get :: ratbag_cmd where
  "cmd_profile_active_get =
     Ratbag_cmd ''get'' (Some ratbag_cmd_profile_active_get) None
       (Some ''Get the active profile number'') FLAG_NEED_DEVICE []"

definition cmd_profile_active :: ratbag_cmd where
  "cmd_profile_active =
     Ratbag_cmd ''active''
       (Some (ratbag_cmd_profile_active [cmd_profile_active_get, cmd_profile_active_set]))
       None None FLAG_NEED_DEVICE [cmd_profile_active_get, cmd_profile_active_set]"

definition cmd_profile :: ratbag_cmd where
  "cmd_profile =
     Ratbag_cmd ''profile''
       (Some (ratbag_cmd_profile [cmd_profile_active, cmd_resolution, cmd_button]))
       (Some ''<idx>'') None FLAG_NEED_DEVICE [cmd_profile_active, cmd_resolution, cmd_button]"

definition top_level_commands :: ratbag_cmd where
  "top_level_commands =
     Ratbag_cmd ''ratbag-command'' None None None 0
       [cmd_info, cmd_list, cmd_change_button, cmd_switch_etekcity, cmd_button, cmd_resolution,
        cmd_profile, cmd_resolution_dpi]"

definition ratbag_commands :: ratbag_cmd where
  "ratbag_commands = top_level_commands"

section \<open>The usage text\<close>

text \<open>
  \<^verbatim>\<open>usage_subcommand\<close> gives the \<^verbatim>\<open>printf\<close> calls it makes, in order. The fifth
  argument of each is the precision of \<^verbatim>\<open>%.*s\<close>, applied to the string of 41 dots:
  \<^verbatim>\<open>printf\<close> prints that many characters of the string, and all of it when the
  precision is negative or larger than the string.
\<close>

definition dots :: string where
  "dots = replicate 41 CHR ''.''"

fun usage_subcommand :: "ratbag_cmd \<Rightarrow> string \<Rightarrow> event list" where
  "usage_subcommand (Ratbag_cmd cmd_name h cmd_args hp fl subs) prefix_in =
     concat (map (\<lambda>sub.
       (let count = 40 - int (length (name sub));
            count = (case args sub of None \<Rightarrow> count | Some a \<Rightarrow> count - (1 + int (length a)));
            count = (if count < 4 then 4 else count);
            prefix = prefix_in @ cmd_name @ (case cmd_args of None \<Rightarrow> [] | Some a \<Rightarrow> '' '') @
                     (case cmd_args of None \<Rightarrow> [] | Some a \<Rightarrow> a) @ '' '';
            count = count - int (length prefix)
        in (case cmd_help sub of
              None \<Rightarrow> []
            | Some sub_help \<Rightarrow>
                [Printf ''    %s%s%s%s %.*s %s\<newline>''
                   [S prefix, S (name sub), S (case args sub of None \<Rightarrow> [] | Some a \<Rightarrow> '' ''),
                    S (case args sub of None \<Rightarrow> [] | Some a \<Rightarrow> a), I count, S dots,
                    S sub_help]]) @
           usage_subcommand sub prefix)) subs)"

definition usage :: "event list" where
  "usage = usage_subcommand ratbag_commands []"

definition precision_str :: "int \<Rightarrow> string \<Rightarrow> string" where
  "precision_str count str = (if count < 0 then str else take (nat count) str)"

text \<open>The dots that one call of the usage text prints between the command and its help.\<close>

fun dot_fill :: "event \<Rightarrow> string" where
  "dot_fill (Printf fmt [p, n, sp, a, I count, S str, hp]) = precision_str count str"
| "dot_fill e = []"

section \<open>\<^verbatim>\<open>main\<close>\<close>

text \<open>
  Option parsing is outside the model: \<^verbatim>\<open>main\<close> receives what \<^verbatim>\<open>getopt_long\<close>
  returns, call after call, up to its \<open>- 1\<close>, and \<^verbatim>\<open>argv\<close> from \<^verbatim>\<open>optind\<close> on.
  The library context is \<open>None\<close> when \<^verbatim>\<open>ratbag_create_context\<close> fails.
\<close>

datatype getopt = Opt_help | Opt_verbose "string option" | Opt_unknown

fun getopt_loop :: "getopt list \<Rightarrow> ratbag_cmd_options \<Rightarrow> state \<Rightarrow> bool \<times> ratbag_cmd_options \<times> state"
  where
  "getopt_loop [] options s = (False, options, s)"
| "getopt_loop (Opt_help # opts) options s = (True, options, emit Usage s)"
| "getopt_loop (Opt_verbose optarg # opts) options s =
     getopt_loop opts
       (options\<lparr>flags := flags options OR
          (if optarg = Some ''raw'' then FLAG_VERBOSE_RAW else FLAG_VERBOSE)\<rparr>) s"
| "getopt_loop (Opt_unknown # opts) options s = (True, options, s)"

definition main :: "ratbag option \<Rightarrow> getopt list \<Rightarrow> string list \<Rightarrow> (int \<times> ratbag_cmd_options) io"
  where
  "main context opts argv s =
     (let options = \<lparr>flags = 0, device = None, profile = None, resolution = None, button = 0\<rparr>;
          out = (\<lambda>rc options s.
            Some ((rc, options),
                  (if rc = ERR_USAGE then emit Usage else id)
                    (ratbag_device_unref (device options)
                       (ratbag_profile_unref (profile options)
                          (ratbag_resolution_unref (resolution options) s)))))
      in case context of
           None \<Rightarrow> out ERR_DEVICE options (error ''Failed to initialize ratbag\<newline>'' [] s)
         | Some ratbag \<Rightarrow>
             (case getopt_loop opts (options\<lparr>flags := 0, button := - 1\<rparr>) s of
                (stop, options, s) \<Rightarrow>
                  if stop then out SUCCESS options s
                  else if argv = [] then out ERR_USAGE options s
                  else do {
                    ((rc, options), s) \<leftarrow>
                      run_subcommand (argv_at argv 0) (subcommands ratbag_commands) ratbag options
                        (int (length argv)) argv
                        (if flags options AND FLAG_VERBOSE_RAW \<noteq> 0
                         then emit (Log_set_priority ''RATBAG_LOG_PRIORITY_RAW'') s
                         else if flags options AND FLAG_VERBOSE \<noteq> 0
                         then emit (Log_set_priority ''RATBAG_LOG_PRIORITY_DEBUG'') s
                         else s);
                    out rc options s
                  }))"

section \<open>An example device\<close>

text \<open>
  A mouse with every capability, eight buttons and two profiles, the second of which is
  active; it opens at \<^verbatim>\<open>/dev/input/event5\<close>, and every write to it succeeds.
\<close>

definition example_resolution :: ratbag_resolution where
  "example_resolution =
     \<lparr>dpi = 800, dpi_x = 800, dpi_y = 800, report_rate = 500, resolution_active = True,
      resolution_default = True, separate_xy_resolution = False\<rparr>"

definition example_button :: ratbag_button where
  "example_button =
     \<lparr>button_type_str = ''unknown'', button_action_str = ''none'', button_key = 0,
      button_action_type = RATBAG_BUTTON_ACTION_TYPE_NONE\<rparr>"

definition example_profile :: ratbag_profile where
  "example_profile =
     \<lparr>profile_active = False, profile_default = False, resolutions = [example_resolution],
      buttons = replicate 8 example_button\<rparr>"

definition example_device :: ratbag_device where
  "example_device =
     \<lparr>device_name = ''mouse'',
      capabilities =
        [RATBAG_DEVICE_CAP_SWITCHABLE_RESOLUTION, RATBAG_DEVICE_CAP_SWITCHABLE_PROFILE,
         RATBAG_DEVICE_CAP_BUTTON_KEY, RATBAG_DEVICE_CAP_BUTTON_MACROS],
      num_buttons = 8,
      profiles = [example_profile, example_profile\<lparr>profile_active := True\<rparr>]\<rparr>"

definition example_ratbag :: ratbag where
  "example_ratbag =
     \<lparr>open_path = (\<lambda>path. if path = ''/dev/input/event5'' then Some example_device else None),
      write_rc = (\<lambda>m. 0),
      dev_input = Some [''event5'', ''mice''],
      event_code_from_name =
        (\<lambda>n. if n = ''KEY_RESERVED'' then 0 else if n = ''KEY_A'' then 30 else - 1),
      special_action_from_str = (\<lambda>n. - 1),
      strtod_int = strtod_to_int\<rparr>"

definition state_zero :: state where
  "state_zero = \<lparr>log = [], live = [], over_released = False\<rparr>"

definition options_zero :: ratbag_cmd_options where
  "options_zero = \<lparr>flags = 0, device = None, profile = None, resolution = None, button = - 1\<rparr>"

definition example_options :: ratbag_cmd_options where
  "example_options =
     options_zero\<lparr>device := Some example_device, profile := Some (example_device, 1)\<rparr>"

section \<open>What a run shows\<close>

text \<open>The writing calls of a run, its output, and the visible tokens of an argument list.\<close>

definition mutations :: "state \<Rightarrow> mutation list" where
  "mutations s = concat (map (\<lambda>e. case e of Mutation m \<Rightarrow> [m] | _ \<Rightarrow> []) (log s))"

definition printed :: "state \<Rightarrow> event list" where
  "printed s = filter (\<lambda>e. case e of Printf fmt as \<Rightarrow> True | _ \<Rightarrow> False) (log s)"

definition visible_tokens :: "int \<Rightarrow> string list \<Rightarrow> string list" where
  "visible_tokens argc argv = take (nat argc) argv"

text \<open>
  The handles that the context holds, the dependency of its fields, and the two together
  with the references that are live.
\<close>

definition opt_handle :: "('a \<Rightarrow> handle) \<Rightarrow> 'a option \<Rightarrow> handle list" where
  "opt_handle f x = (case x of None \<Rightarrow> [] | Some y \<Rightarrow> [f y])"


definition context_ok :: "ratbag_cmd_options \<Rightarrow> bool" where
  "context_ok options =
     ((resolution options \<noteq> None \<longrightarrow> profile options \<noteq> None) \<and>
      (profile options \<noteq> None \<longrightarrow> device options \<noteq> None))"



section \<open>Basic facts\<close>

lemmas FLAG_defs =
  FLAG_VERBOSE_def FLAG_VERBOSE_RAW_def FLAG_NEED_DEVICE_def FLAG_NEED_PROFILE_def
  FLAG_NEED_RESOLUTION_def

lemma example_device_sel:
  "device_name example_device = ''mouse''"
  "capabilities example_device =
     [RATBAG_DEVICE_CAP_SWITCHABLE_RESOLUTION, RATBAG_DEVICE_CAP_SWITCHABLE_PROFILE,
      RATBAG_DEVICE_CAP_BUTTON_KEY, RATBAG_DEVICE_CAP_BUTTON_MACROS]"
  "num_buttons example_device = 8"
  "profiles example_device = [example_profile, example_profile\<lparr>profile_active := True\<rparr>]"
  by (simp_all add: example_device_def)

lemma macro_zero_sel:
  "macro_name macro_zero = None"
  "events macro_zero ! 0 = (RATBAG_MACRO_EVENT_NONE, 0)"
  by (simp_all add: macro_zero_def)

lemmas example_defs =
  example_options_def options_zero_def example_device_sel example_profile_def
  example_resolution_def example_button_def example_ratbag_def state_zero_def

lemmas lib_defs =
  ratbag_cmd_open_device_def ratbag_device_unref_def ratbag_profile_unref_def
  ratbag_resolution_unref_def ratbag_button_unref_def ratbag_device_get_name_def
  ratbag_device_has_capability_def ratbag_device_get_num_profiles_def
  ratbag_device_get_num_buttons_def ratbag_device_get_profile_by_index_def the_profile_def
  ratbag_profile_is_active_def ratbag_profile_is_default_def
  ratbag_profile_get_num_resolutions_def ratbag_profile_get_resolution_def
  ratbag_profile_get_button_by_index_def ratbag_profile_set_active_def the_resolution_def
  ratbag_resolution_is_active_def ratbag_resolution_get_dpi_def ratbag_resolution_get_dpi_x_def
  ratbag_resolution_get_dpi_y_def ratbag_resolution_get_report_rate_def
  ratbag_resolution_is_default_def ratbag_resolution_has_capability_def
  ratbag_resolution_set_dpi_def the_button_def ratbag_button_get_key_def
  ratbag_button_get_action_type_def button_type_to_str_def button_action_to_str_def
  ratbag_button_write_def ratbag_button_set_button_def ratbag_button_set_key_def
  ratbag_button_set_special_def ratbag_button_set_macro_def ratbag_button_set_macro_event_def
  ratbag_button_write_macro_def ratbag_button_disable_def
  emit_def printf_def error_def acquire_def release_def

declare floor_log2.simps [simp del]

lemmas libc_defs =
  isspace_def isdigit_def isxdigit_def digit_val_def sign_len_def to_int32_def atoi_def to_upper_def
  strtod_mantissa_def strtod_exponent_def strtod_nan_chars_def strtod_number_def strtod_endp_def
  xdigit_val_def digits_val_def round_half_even_def floor_log2.simps double_to_int_def
  strtod_fraction_def strtod_exponent_val_def scaled_to_int_def strtod_to_int_def

lemmas tree_defs =
  ratbag_commands_def top_level_commands_def cmd_info_def cmd_list_def cmd_change_button_def
  cmd_switch_etekcity_def cmd_button_def cmd_resolution_def cmd_profile_def
  cmd_resolution_dpi_def cmd_resolution_dpi_get_def cmd_resolution_dpi_set_def
  cmd_resolution_active_def cmd_resolution_active_get_def cmd_resolution_active_set_def
  cmd_profile_active_def cmd_profile_active_get_def cmd_profile_active_set_def

lemmas dispatch_defs =
  main_def run_subcommand_def subcommand_at_def argv_at_def fill_options_def
  fill_options_profile_def fill_options_resolution_def
  ratbag_cmd_device_from_arg_def ratbag_cmd_get_active_profile_def
  ratbag_cmd_get_active_resolution_def

lemma find_subcommand_simps [simp]:
  "find_subcommand c subs None i = None"
  "find_subcommand c subs (Some sub) i =
     (if c = name sub then Some sub else find_subcommand c subs (subcommand_at subs i) (Suc i))"
  by simp_all

declare find_subcommand.simps [simp del]

text \<open>The conversions of the tokens that the example runs hold.\<close>

lemma atoi_examples:
  "atoi ''2'' = 2" "atoi ''3'' = 3"
  by (simp_all add: libc_defs)

lemma strtod_examples:
  "strtod_endp ''active'' = 0" "strtod_endp ''5'' = 1" "strtod_to_int ''5'' = 5"
  "strtod_endp ''0'' = 1" "strtod_to_int ''0'' = 0"
  "strtod_endp ''0.5'' = 3" "strtod_to_int ''0.5'' = 0"
  by (simp_all add: libc_defs)

section \<open>Index bounds\<close>

text \<open>
  C1. The claim: an explicit index outside the item count gives \<^verbatim>\<open>ERR_UNSUPPORTED\<close>,
  never a device error and never a crash, in particular for \<^verbatim>\<open>profile active set N\<close>.
  The guard of \<^verbatim>\<open>ratbag_cmd_profile_active_set\<close> is \<^verbatim>\<open>index > num_profiles\<close>, so
  the index equal to the count passes it. On the example device, which has the profiles 0
  and 1, \<^verbatim>\<open>profile active set 2\<close> looks profile 2 up, gets \<^verbatim>\<open>NULL\<close> and hands it to
  \<^verbatim>\<open>ratbag_profile_is_active\<close>: the run does not return a code.
\<close>

theorem profile_active_set_index_equal_count:
  "main (Some example_ratbag) [] [''profile'', ''active'', ''set'', ''2'', ''/dev/input/event5'']
     state_zero = None"
  by (simp add: dispatch_defs tree_defs FLAG_defs ratbag_cmd_profile_def
      ratbag_cmd_profile_active_def ratbag_cmd_profile_active_set_def lib_defs atoi_examples
      strtod_examples example_defs)

text \<open>One index further the guard fires, and the run ends as the claim says.\<close>

lemma profile_active_set_index_above_count:
  "main (Some example_ratbag) [] [''profile'', ''active'', ''set'', ''3'', ''/dev/input/event5'']
     state_zero =
     Some ((ERR_UNSUPPORTED, example_options),
           state_zero\<lparr>log :=
             [Profile_is_active (example_device, 0), Profile_is_active (example_device, 1),
              Error '''%d' is not a valid profile\<newline>'' [I 3]]\<rparr>)"
  by (simp add: dispatch_defs tree_defs FLAG_defs ratbag_cmd_profile_def
      ratbag_cmd_profile_active_def ratbag_cmd_profile_active_set_def lib_defs atoi_examples
      strtod_examples example_defs)

text \<open>The explicit index of the \<^verbatim>\<open>profile\<close> node is refused by the lookup itself.\<close>

lemma profile_index_above_count:
  "main (Some example_ratbag) [] [''profile'', ''5'', ''active'', ''set'', ''/dev/input/event5'']
     state_zero =
     Some ((ERR_UNSUPPORTED, options_zero\<lparr>device := Some example_device\<rparr>),
           state_zero\<lparr>log := [Error ''Unable to find profile %d\<newline>'' [I 5]]\<rparr>)"
  by (simp add: dispatch_defs tree_defs FLAG_defs ratbag_cmd_profile_def lib_defs
      strtod_examples example_defs)

section \<open>The macro encoder and its caller\<close>

lemma str_to_macro_f:
  "str_to_macro (Some (CHR ''f'' # rest)) macro_zero =
     (0, \<lparr>macro_name = Some ''foo'',
          events =
            [(RATBAG_MACRO_EVENT_KEY_PRESSED, KEY_F), (RATBAG_MACRO_EVENT_KEY_RELEASED, KEY_F),
             (RATBAG_MACRO_EVENT_KEY_PRESSED, KEY_O), (RATBAG_MACRO_EVENT_KEY_RELEASED, KEY_O),
             (RATBAG_MACRO_EVENT_KEY_PRESSED, KEY_O), (RATBAG_MACRO_EVENT_KEY_RELEASED, KEY_O)] @
            replicate 58 (RATBAG_MACRO_EVENT_NONE, 0)\<rparr>)"
  by (simp add: str_to_macro_def macro_zero_def eval_nat_numeral)

lemma str_to_macro_b:
  "str_to_macro (Some (CHR ''b'' # rest)) macro_zero =
     (0, \<lparr>macro_name = Some ''bar'',
          events =
            [(RATBAG_MACRO_EVENT_KEY_PRESSED, KEY_B), (RATBAG_MACRO_EVENT_KEY_RELEASED, KEY_B),
             (RATBAG_MACRO_EVENT_KEY_PRESSED, KEY_A), (RATBAG_MACRO_EVENT_KEY_RELEASED, KEY_A),
             (RATBAG_MACRO_EVENT_KEY_PRESSED, KEY_R), (RATBAG_MACRO_EVENT_KEY_RELEASED, KEY_R)] @
            replicate 58 (RATBAG_MACRO_EVENT_NONE, 0)\<rparr>)"
  by (simp add: str_to_macro_def macro_zero_def eval_nat_numeral)

lemma str_to_macro_other:
  "take 1 a \<noteq> ''f'' \<Longrightarrow> take 1 a \<noteq> ''b'' \<Longrightarrow> str_to_macro (Some a) macro_zero = (0, macro_zero)"
  by (simp add: str_to_macro_def)

text \<open>
  C2. The claim: an argument that begins with \<^verbatim>\<open>f\<close> encodes as the six events of F, O,
  O, one that begins with \<^verbatim>\<open>b\<close> as those of B, A, R, and any other argument gives no
  event and is rejected by \<^verbatim>\<open>change-button\<close> with \<^verbatim>\<open>ERR_USAGE\<close>. The encoder
  returns \<open>0\<close> for an argument it does not know, so the caller's test does not fire:
  \<^verbatim>\<open>change-button 3 macro x\<close> on the example device writes a macro without a name and
  without events, sets the profile active and returns \<^verbatim>\<open>SUCCESS\<close>.
\<close>

theorem change_button_macro_unknown_accepted:
  "str_to_macro (Some ''x'') macro_zero = (0, macro_zero) \<and>
   ratbag_cmd_change_button example_ratbag example_options 3 [''3'', ''macro'', ''x''] state_zero =
     Some ((SUCCESS, example_options),
           state_zero\<lparr>log :=
             [Mutation (Button_set_macro ((example_device, 1), 3) None),
              Mutation (Button_write_macro ((example_device, 1), 3)),
              Mutation (Profile_set_active (example_device, 1))]\<rparr>)"
proof
  show enc: "str_to_macro (Some ''x'') macro_zero = (0, macro_zero)"
    by (simp add: str_to_macro_other)
  show "ratbag_cmd_change_button example_ratbag example_options 3 [''3'', ''macro'', ''x''] state_zero =
     Some ((SUCCESS, example_options),
           state_zero\<lparr>log :=
             [Mutation (Button_set_macro ((example_device, 1), 3) None),
              Mutation (Button_write_macro ((example_device, 1), 3)),
              Mutation (Profile_set_active (example_device, 1))]\<rparr>)"
    by (simp add: ratbag_cmd_change_button_def argv_at_def enc lib_defs atoi_examples example_defs
        macro_zero_sel)
qed

section \<open>The device path\<close>

lemma fill_options_argc:
  assumes "fill_options ratbag options fl argc argv s = Some ((rc, options', argc'), s')"
  shows "if fl AND (FLAG_NEED_DEVICE OR FLAG_NEED_PROFILE OR FLAG_NEED_RESOLUTION) \<noteq> 0 \<and>
            device options = None
         then (if argc \<noteq> 0 \<and> Option.bind (argv_at argv (argc - 1)) (open_path ratbag) \<noteq> None
               then argc' = argc - 1 \<and>
                    device options' = Option.bind (argv_at argv (argc - 1)) (open_path ratbag)
               else rc = ERR_DEVICE \<and> argc' = argc \<and> options' = options)
         else argc' = argc \<and> device options' = device options"
  using assms
  by (auto simp: fill_options_def fill_options_profile_def fill_options_resolution_def
      ratbag_cmd_device_from_arg_def ratbag_cmd_open_device_def
      split: if_splits option.splits Option.bind_splits prod.splits)

lemma last_take_nth: "0 < n \<Longrightarrow> n \<le> length xs \<Longrightarrow> last (take n xs) = xs ! (n - 1)"
  by (subst last_conv_nth) auto

lemma argv_at_last_visible:
  "0 < argc \<Longrightarrow> argc \<le> int (length argv) \<Longrightarrow>
   argv_at argv (argc - 1) = Some (last (visible_tokens argc argv))"
  by (simp add: argv_at_def visible_tokens_def last_take_nth nat_diff_distrib)

lemma visible_tokens_pred:
  "0 < argc \<Longrightarrow> argc \<le> int (length argv) \<Longrightarrow>
   visible_tokens (argc - 1) argv = butlast (visible_tokens argc argv)"
  by (simp add: visible_tokens_def butlast_take nat_diff_distrib)

lemma fill_options_example:
  "fill_options example_ratbag options_zero FLAG_NEED_DEVICE 2 [''info'', ''/dev/input/event5'']
     state_zero =
     Some ((SUCCESS, options_zero\<lparr>device := Some example_device\<rparr>, 1),
           state_zero\<lparr>live := [HDevice example_device]\<rparr>)"
  by (simp add: dispatch_defs FLAG_defs lib_defs example_defs)

text \<open>
  C4, as the claim states it: when a device is required and none is cached,
  \<^verbatim>\<open>fill_options\<close> consumes one token from the front of the remaining tokens. With the
  two tokens \<^verbatim>\<open>info /dev/input/event5\<close> visible it opens the device of the second one
  and leaves the first: what remains is not the tail of the list.
\<close>

theorem fill_options_front_counterexample:
  "fill_options example_ratbag options_zero FLAG_NEED_DEVICE 2 [''info'', ''/dev/input/event5'']
     state_zero =
     Some ((SUCCESS, options_zero\<lparr>device := Some example_device\<rparr>, 1),
           state_zero\<lparr>live := [HDevice example_device]\<rparr>) \<and>
   visible_tokens 1 [''info'', ''/dev/input/event5''] \<noteq>
     tl (visible_tokens 2 [''info'', ''/dev/input/event5''])"
  by (simp add: fill_options_example visible_tokens_def)

text \<open>
  C4, amended: when a device is required and none is cached, \<^verbatim>\<open>fill_options\<close> takes
  the last visible token as the device path. If a token is there and opens as a device,
  exactly that token is consumed, from the end, and the device is stored; otherwise the
  code is \<^verbatim>\<open>ERR_DEVICE\<close> and nothing is consumed or stored. When the device is cached
  or not required, no token is consumed.
\<close>

theorem fill_options_consumes_last_token:
  assumes run: "fill_options ratbag options fl argc argv s = Some ((rc, options', argc'), s')"
    and lo: "0 \<le> argc" and hi: "argc \<le> int (length argv)"
  shows "if fl AND (FLAG_NEED_DEVICE OR FLAG_NEED_PROFILE OR FLAG_NEED_RESOLUTION) \<noteq> 0 \<and>
            device options = None
         then (if argc \<noteq> 0 \<and> open_path ratbag (last (visible_tokens argc argv)) \<noteq> None
               then visible_tokens argc' argv = butlast (visible_tokens argc argv) \<and>
                    device options' = open_path ratbag (last (visible_tokens argc argv))
               else rc = ERR_DEVICE \<and> argc' = argc \<and> options' = options)
         else argc' = argc \<and> device options' = device options"
proof (cases "argc = 0")
  case True
  with fill_options_argc [OF run] show ?thesis by simp
next
  case False
  with lo have pos: "0 < argc" by simp
  show ?thesis
    using fill_options_argc [OF run] argv_at_last_visible [OF pos hi]
      visible_tokens_pred [OF pos hi]
    by (simp split: if_splits)
qed

theorem fill_options_consumes_last_token_witness:
  "visible_tokens 1 [''info'', ''/dev/input/event5''] =
     butlast (visible_tokens 2 [''info'', ''/dev/input/event5'']) \<and>
   device (options_zero\<lparr>device := Some example_device\<rparr>) =
     open_path example_ratbag (last (visible_tokens 2 [''info'', ''/dev/input/event5'']))"
  using fill_options_consumes_last_token [OF fill_options_example]
  by (simp add: FLAG_defs options_zero_def visible_tokens_def example_ratbag_def)

text \<open>
  Inside \<^verbatim>\<open>ratbag_cmd_device_from_arg\<close>, when no token is left (\<^verbatim>\<open>argc\<close> is \<open>0\<close>),
  the dispatch ends with \<^verbatim>\<open>ERR_DEVICE\<close> after the message about the missing path and
  the usage text, and the context is as it was. \<^verbatim>\<open>main\<close> does not get there: it
  dispatches with the command token still visible.
\<close>

lemma no_token_is_device_error:
  assumes "find_subcommand c subs (subcommand_at subs 0) 0 = Some sub"
    and "cmd_flags sub AND (FLAG_NEED_DEVICE OR FLAG_NEED_PROFILE OR FLAG_NEED_RESOLUTION) \<noteq> 0"
    and "device options = None"
  shows "run_subcommand (Some c) subs ratbag options 0 argv s =
           Some ((ERR_DEVICE, options), emit Usage (error ''Missing device path.\<newline>'' [] s))"
  using assms
  by (simp add: run_subcommand_def fill_options_def ratbag_cmd_device_from_arg_def)

text \<open>The option loop leaves the handles of the context and the references alone.\<close>

lemma getopt_loop_frame:
  "getopt_loop opts options s = (stop, options', s') \<Longrightarrow>
   device options' = device options \<and> profile options' = profile options \<and>
   resolution options' = resolution options \<and> live s' = live s \<and>
   over_released s' = over_released s \<and> mutations s' = mutations s"
proof (induction opts options s rule: getopt_loop.induct)
qed (auto simp: emit_def mutations_def)

lemma argv_at_hd: "argv \<noteq> [] \<Longrightarrow> argv_at argv 0 = Some (hd argv)"
  by (cases argv) (simp_all add: argv_at_def)

lemma argv_at_last: "argv \<noteq> [] \<Longrightarrow> argv_at argv (int (length argv) - 1) = Some (last argv)"
proof -
  assume ne: "argv \<noteq> []"
  have "nat (int (length argv) - 1) = length argv - 1" by linarith
  with ne show ?thesis by (simp add: argv_at_def last_conv_nth)
qed

text \<open>
  C7. An invocation of a command that requires a device, without a device path: the option
  loop does not end the run, the first token names a top-level node with a prerequisite
  flag, and the last token, which \<^verbatim>\<open>fill_options\<close> takes as the path, is not one that
  opens as a device (without a path it is the command word or one of its arguments). The
  run ends with \<^verbatim>\<open>ERR_DEVICE\<close>, which is \<open>3\<close>, not with \<^verbatim>\<open>ERR_USAGE\<close>: the
  context holds no handle, nothing is written to a device, and the only output is the
  message that the token is not a supported device.
\<close>

theorem missing_device_path_is_device_error:
  assumes opts: "getopt_loop opts options_zero s = (False, options, s1)"
    and argv: "argv \<noteq> []"
    and sub: "find_subcommand (hd argv) (subcommands ratbag_commands)
           (subcommand_at (subcommands ratbag_commands) 0) 0 = Some sub"
    and need: "cmd_flags sub AND (FLAG_NEED_DEVICE OR FLAG_NEED_PROFILE OR FLAG_NEED_RESOLUTION) \<noteq> 0"
    and path: "open_path ratbag (last argv) = None"
  shows "main (Some ratbag) opts argv s =
           Some ((ERR_DEVICE, options),
                 error ''Device '%s' is not supported\<newline>'' [S (last argv)]
                   (if flags options AND FLAG_VERBOSE_RAW \<noteq> 0
                    then emit (Log_set_priority ''RATBAG_LOG_PRIORITY_RAW'') s1
                    else if flags options AND FLAG_VERBOSE \<noteq> 0
                    then emit (Log_set_priority ''RATBAG_LOG_PRIORITY_DEBUG'') s1
                    else s1))"
proof -
  from getopt_loop_frame [OF opts]
  have none: "device options = None" "profile options = None" "resolution options = None"
    by (simp_all add: options_zero_def)
  have len: "int (length argv) \<noteq> 0" using argv by simp
  show ?thesis
    using opts sub need path none len argv_at_hd [OF argv] argv_at_last [OF argv] argv
    by (simp add: main_def options_zero_def run_subcommand_def fill_options_def
        ratbag_cmd_device_from_arg_def ratbag_cmd_open_device_def ratbag_device_unref_def
        ratbag_profile_unref_def ratbag_resolution_unref_def)
qed

theorem missing_device_path_is_device_error_witness:
  "main (Some example_ratbag) [] [''profile'', ''active'', ''get''] state_zero =
     Some ((ERR_DEVICE, options_zero),
           state_zero\<lparr>log := [Error ''Device '%s' is not supported\<newline>'' [S ''get'']]\<rparr>)"
  using missing_device_path_is_device_error
    [of "[]" state_zero options_zero state_zero "[''profile'', ''active'', ''get'']" cmd_profile
       example_ratbag]
  by (simp add: tree_defs subcommand_at_def FLAG_defs options_zero_def state_zero_def emit_def
      error_def example_ratbag_def)

text \<open>The same for \<^verbatim>\<open>info\<close> alone, whose own name is tried as the path.\<close>

lemma info_without_device_path:
  "main (Some example_ratbag) [] [''info''] state_zero =
     Some ((ERR_DEVICE, options_zero),
           state_zero\<lparr>log := [Error ''Device '%s' is not supported\<newline>'' [S ''info'']]\<rparr>)"
  by (simp add: dispatch_defs tree_defs FLAG_defs lib_defs example_defs)

section \<open>A key name that does not resolve\<close>

text \<open>
  C8. In \<^verbatim>\<open>change-button X key NAME\<close>, when the key-name lookup gives the code
  \<open>0\<close> the handler returns \<^verbatim>\<open>ERR_USAGE\<close> at once: all it has done is print the
  error, so no writing call was made and no handle was taken.
\<close>

theorem change_button_key_unresolved:
  assumes "argv_at argv 0 = Some button_str"
    and "argv_at argv 1 = Some ''key''"
    and "argv_at argv 2 = Some key_name"
    and "event_code_from_name ratbag key_name = 0"
  shows "ratbag_cmd_change_button ratbag options 3 argv s =
           Some ((ERR_USAGE, options), error ''Failed to resolve key %s\<newline>'' [S key_name] s) \<and>
         mutations (error ''Failed to resolve key %s\<newline>'' [S key_name] s) = mutations s \<and>
         live (error ''Failed to resolve key %s\<newline>'' [S key_name] s) = live s"
  using assms by (simp add: ratbag_cmd_change_button_def mutations_def error_def emit_def)

theorem change_button_key_unresolved_witness:
  "ratbag_cmd_change_button example_ratbag example_options 3 [''3'', ''key'', ''KEY_RESERVED'']
     state_zero =
     Some ((ERR_USAGE, example_options),
           state_zero\<lparr>log := [Error ''Failed to resolve key %s\<newline>'' [S ''KEY_RESERVED'']]\<rparr>)"
  using change_button_key_unresolved
    [of "[''3'', ''key'', ''KEY_RESERVED'']" "''3''" "''KEY_RESERVED''" example_ratbag example_options state_zero]
  by (simp add: argv_at_def example_ratbag_def error_def emit_def state_zero_def)

section \<open>The width of the dot fill\<close>

text \<open>
  C9. The claim: the dots between a command and its help are at least four, whatever the
  nesting. \<^verbatim>\<open>usage_subcommand\<close> raises the count to 4 and only then subtracts the length
  of the prefix, so the precision it passes can be anything below. These are the numbers
  of dots in the lines of the usage text of the program's own command tree, in order:
  \<^verbatim>\<open>profile <idx> active get\<close> has one dot, \<^verbatim>\<open>resolution N active set M\<close> none, and
  the lines whose precision is negative have all 41.
\<close>

theorem usage_dot_fill_widths:
  "map (\<lambda>e. length (dot_fill e)) usage =
     [21, 21, 41, 10, 13, 2, 0, 5, 41, 1, 41, 41, 41, 41, 41, 41, 18, 12]"
  by (simp add: usage_def tree_defs dots_def precision_str_def)

section \<open>\<^verbatim>\<open>profile active get\<close>\<close>

declare profile_active_get_from.simps [simp del]

lemma profile_active_get_from_none_active:
  assumes "list_all (\<lambda>p. \<not> profile_active p) (profiles d)" and "0 \<le> i"
  shows "\<exists>s'. profile_active_get_from (Some d) (int (length (profiles d))) i s =
                 Some ((ERR_DEVICE, 0, None), s') \<and>
              printed s' = printed s \<and> live s' = live s \<and> over_released s' = over_released s"
  using assms(2)
proof (induction "nat (int (length (profiles d)) - i)" arbitrary: i s)
  case 0
  then show ?case by (simp add: profile_active_get_from.simps [of _ _ i])
next
  case (Suc k)
  then have lt: "i < int (length (profiles d))" by linarith
  then have inactive: "\<not> profile_active (profiles d ! nat i)"
    using assms(1) Suc.prems by (simp add: list_all_length)
  have "k = nat (int (length (profiles d)) - (i + 1))" using Suc.hyps(2) by linarith
  from Suc.hyps(1) [OF this, of "emit (Profile_is_active (d, nat i)) s"] Suc.prems
  obtain s' where rec: "profile_active_get_from (Some d) (int (length (profiles d))) (i + 1)
        (emit (Profile_is_active (d, nat i)) s) = Some ((ERR_DEVICE, 0, None), s')"
      and eqs: "printed s' = printed (emit (Profile_is_active (d, nat i)) s)"
        "live s' = live (emit (Profile_is_active (d, nat i)) s)"
        "over_released s' = over_released (emit (Profile_is_active (d, nat i)) s)"
    by auto
  have step: "profile_active_get_from (Some d) (int (length (profiles d))) i s =
     profile_active_get_from (Some d) (int (length (profiles d))) (i + 1)
        (emit (Profile_is_active (d, nat i)) s)"
    using lt Suc.prems inactive
    by (simp add: profile_active_get_from.simps [of _ _ i] lib_defs)
  show ?case using step rec eqs by (simp add: printed_def emit_def)
qed

text \<open>
  C10. On a device without the switchable-profile capability, or with at most one
  profile, \<^verbatim>\<open>profile active get\<close> returns \<^verbatim>\<open>SUCCESS\<close> and all it does is print
  \<open>0\<close>: no active flag is queried. On a device with the capability and more than one
  profile, none of them active, it returns \<^verbatim>\<open>ERR_DEVICE\<close> and prints nothing.
\<close>

theorem profile_active_get_cases:
  assumes "device options = Some d"
  shows "(RATBAG_DEVICE_CAP_SWITCHABLE_PROFILE \<notin> set (capabilities d) \<or> length (profiles d) \<le> 1 \<longrightarrow>
            ratbag_cmd_profile_active_get ratbag options argc argv s =
              Some ((SUCCESS, options), printf ''%d\<newline>'' [I 0] s)) \<and>
         (RATBAG_DEVICE_CAP_SWITCHABLE_PROFILE \<in> set (capabilities d) \<and> 1 < length (profiles d) \<and>
          list_all (\<lambda>p. \<not> profile_active p) (profiles d) \<longrightarrow>
            (\<exists>s'. ratbag_cmd_profile_active_get ratbag options argc argv s =
                     Some ((ERR_DEVICE, options), s') \<and> printed s' = printed s))"
proof -
  have "\<exists>s'. ratbag_cmd_profile_active_get ratbag options argc argv s =
                      Some ((ERR_DEVICE, options), s') \<and> printed s' = printed s"
    if "RATBAG_DEVICE_CAP_SWITCHABLE_PROFILE \<in> set (capabilities d)" "1 < length (profiles d)"
      "list_all (\<lambda>p. \<not> profile_active p) (profiles d)"
  proof -
    from profile_active_get_from_none_active [OF that(3), of 0 s]
    obtain s' where "profile_active_get_from (Some d) (int (length (profiles d))) 0 s =
                 Some ((ERR_DEVICE, 0, None), s')" "printed s' = printed s"
      by auto
    moreover have "profiles d \<noteq> []" using that(2) by auto
    ultimately show ?thesis
      using that assms
      by (simp add: ratbag_cmd_profile_active_get_def ratbag_device_has_capability_def
          ratbag_device_get_num_profiles_def ratbag_profile_unref_def)
  qed
  then show ?thesis
    using assms
    by (auto simp: ratbag_cmd_profile_active_get_def ratbag_device_has_capability_def
          ratbag_device_get_num_profiles_def ratbag_profile_unref_def Let_def)
qed

theorem profile_active_get_cases_witness:
  "(\<exists>s'. ratbag_cmd_profile_active_get example_ratbag
           (options_zero\<lparr>device :=
              Some (example_device\<lparr>profiles := [example_profile, example_profile]\<rparr>)\<rparr>)
           0 [] state_zero =
          Some ((ERR_DEVICE,
                 options_zero\<lparr>device :=
                   Some (example_device\<lparr>profiles := [example_profile, example_profile]\<rparr>)\<rparr>), s') \<and>
          printed s' = printed state_zero) \<and>
   ratbag_cmd_profile_active_get example_ratbag
     (options_zero\<lparr>device := Some (example_device\<lparr>profiles := [example_profile]\<rparr>)\<rparr>)
     0 [] state_zero =
     Some ((SUCCESS, options_zero\<lparr>device := Some (example_device\<lparr>profiles := [example_profile]\<rparr>)\<rparr>),
           printf ''%d\<newline>'' [I 0] state_zero)"
  using profile_active_get_cases
      [of "options_zero\<lparr>device :=
             Some (example_device\<lparr>profiles := [example_profile, example_profile]\<rparr>)\<rparr>"
          "example_device\<lparr>profiles := [example_profile, example_profile]\<rparr>"
          example_ratbag 0 "[]" state_zero]
    profile_active_get_cases
      [of "options_zero\<lparr>device := Some (example_device\<lparr>profiles := [example_profile]\<rparr>)\<rparr>"
          "example_device\<lparr>profiles := [example_profile]\<rparr>" example_ratbag 0 "[]" state_zero]
  by (simp add: options_zero_def example_device_def example_profile_def)

section \<open>References held and released\<close>

lemma state_sel [simp]:
  "live (emit e s) = live s" "over_released (emit e s) = over_released s"
  "live (printf f a s) = live s" "over_released (printf f a s) = over_released s"
  "live (error f a s) = live s" "over_released (error f a s) = over_released s"
  "live (acquire h s) = h # live s" "over_released (acquire h s) = over_released s"
  "live (release h s) = (if h \<in> set (live s) then remove1 h (live s) else live s)"
  "over_released (release h s) = (h \<notin> set (live s) \<or> over_released s)"
  by (simp_all add: emit_def printf_def error_def acquire_def release_def)

lemma mutations_sel [simp]:
  "mutations (printf f a s) = mutations s" "mutations (error f a s) = mutations s"
  "mutations (acquire h s) = mutations s" "mutations (release h s) = mutations s"
  "mutations (emit Usage s) = mutations s"
  "mutations (emit (Profile_is_active p) s) = mutations s"
  "mutations (emit (Resolution_is_active r) s) = mutations s"
  "mutations (emit (Log_set_priority l) s) = mutations s"
  "mutations (emit (Mutation m) s) = mutations s @ [m]"
  by (simp_all add: mutations_def emit_def printf_def error_def acquire_def release_def)

lemmas handle_defs =
  ratbag_cmd_open_device_def ratbag_device_unref_def ratbag_profile_unref_def
  ratbag_resolution_unref_def ratbag_button_unref_def ratbag_device_get_name_def
  ratbag_device_has_capability_def ratbag_device_get_num_profiles_def
  ratbag_device_get_num_buttons_def ratbag_device_get_profile_by_index_def
  ratbag_profile_is_active_def ratbag_profile_is_default_def
  ratbag_profile_get_num_resolutions_def ratbag_profile_get_resolution_def
  ratbag_profile_get_button_by_index_def ratbag_profile_set_active_def
  ratbag_resolution_is_active_def ratbag_resolution_get_dpi_def ratbag_resolution_get_dpi_x_def
  ratbag_resolution_get_dpi_y_def ratbag_resolution_get_report_rate_def
  ratbag_resolution_is_default_def ratbag_resolution_has_capability_def
  ratbag_resolution_set_dpi_def ratbag_button_get_key_def
  ratbag_button_get_action_type_def button_type_to_str_def button_action_to_str_def
  ratbag_button_write_def ratbag_button_set_button_def ratbag_button_set_key_def
  ratbag_button_set_special_def ratbag_button_set_macro_def ratbag_button_set_macro_event_def
  ratbag_button_write_macro_def ratbag_button_disable_def

declare get_active_profile_from.simps [simp del]
declare get_active_resolution_from.simps [simp del]
declare info_resolutions.simps [simp del]
declare info_buttons.simps [simp del]
declare info_profiles.simps [simp del]
declare macro_events_from.simps [simp del]

lemma get_active_profile_from_unfold:
  "get_active_profile_from None i s = None"
  "get_active_profile_from (Some d) i s =
     (if i < int (length (profiles d))
      then (if 0 \<le> i
            then (if profile_active (profiles d ! nat i)
                  then Some (Some (d, nat i),
                             emit (Profile_is_active (d, nat i)) (acquire (HProfile (d, nat i)) s))
                  else get_active_profile_from (Some d) (i + 1)
                         (release (HProfile (d, nat i))
                            (emit (Profile_is_active (d, nat i))
                               (acquire (HProfile (d, nat i)) s))))
            else None)
      else Some (None, error ''Failed to retrieve the active profile\<newline>'' [] s))"
  by (subst get_active_profile_from.simps; simp add: handle_defs the_profile_def)+

lemma get_active_profile_from_refs:
  assumes "get_active_profile_from dev i s = Some (prof, s')"
  shows "live s' = opt_handle HProfile prof @ live s \<and> over_released s' = over_released s \<and>
         mutations s' = mutations s \<and> (prof \<noteq> None \<longrightarrow> dev \<noteq> None)"
proof (cases dev)
  case None
  with assms show ?thesis by (simp add: get_active_profile_from_unfold)
next
  case (Some d)
  have "get_active_profile_from (Some d) i s = Some (prof, s') \<Longrightarrow>
        live s' = opt_handle HProfile prof @ live s \<and> over_released s' = over_released s \<and>
        mutations s' = mutations s"
  proof (induction "nat (int (length (profiles d)) - i)" arbitrary: i s)
    case 0
    then show ?case
      by (auto simp: get_active_profile_from_unfold opt_handle_def split: if_splits)
  next
    case (Suc k)
    have k: "k = nat (int (length (profiles d)) - (i + 1))" using Suc.hyps(2) by linarith
    show ?case
      using Suc.prems Suc.hyps(1) [OF k]
      by (subst (asm) get_active_profile_from_unfold)
         (auto simp: opt_handle_def split: if_splits)
  qed
  with assms Some show ?thesis by simp
qed


lemma get_active_resolution_from_unfold:
  "get_active_resolution_from None i s = None"
  "get_active_resolution_from (Some p) i s =
     (if i < int (length (resolutions (the_profile p)))
      then (if 0 \<le> i
            then (if resolution_active (the_resolution (p, nat i))
                  then Some (Some (p, nat i),
                             emit (Resolution_is_active (p, nat i))
                               (acquire (HResolution (p, nat i)) s))
                  else get_active_resolution_from (Some p) (i + 1)
                         (release (HResolution (p, nat i))
                            (emit (Resolution_is_active (p, nat i))
                               (acquire (HResolution (p, nat i)) s))))
            else None)
      else Some (None, error ''Failed to retrieve the active resolution\<newline>'' [] s))"
  by (subst get_active_resolution_from.simps; simp add: handle_defs)+

lemma get_active_resolution_from_refs:
  assumes "get_active_resolution_from prof i s = Some (res, s')"
  shows "live s' = opt_handle HResolution res @ live s \<and> over_released s' = over_released s \<and>
         mutations s' = mutations s \<and> (res \<noteq> None \<longrightarrow> prof \<noteq> None)"
proof (cases prof)
  case None
  with assms show ?thesis by (simp add: get_active_resolution_from_unfold)
next
  case (Some p)
  have "get_active_resolution_from (Some p) i s = Some (res, s') \<Longrightarrow>
        live s' = opt_handle HResolution res @ live s \<and> over_released s' = over_released s \<and>
        mutations s' = mutations s"
  proof (induction "nat (int (length (resolutions (the_profile p))) - i)" arbitrary: i s)
    case 0
    then show ?case
      by (auto simp: get_active_resolution_from_unfold opt_handle_def split: if_splits)
  next
    case (Suc k)
    have k: "k = nat (int (length (resolutions (the_profile p))) - (i + 1))"
      using Suc.hyps(2) by linarith
    show ?case
      using Suc.prems Suc.hyps(1) [OF k]
      by (subst (asm) get_active_resolution_from_unfold)
         (auto simp: opt_handle_def split: if_splits)
  qed
  with assms Some show ?thesis by simp
qed






















section \<open>The context through the dispatch\<close>


lemma get_active_profile_refs:
  "ratbag_cmd_get_active_profile dev s = Some (prof, sp) \<Longrightarrow>
   live sp = opt_handle HProfile prof @ live s \<and> over_released sp = over_released s \<and>
   mutations sp = mutations s \<and> (prof \<noteq> None \<longrightarrow> dev \<noteq> None)"
  by (simp add: ratbag_cmd_get_active_profile_def get_active_profile_from_refs)

lemma get_active_resolution_refs:
  "ratbag_cmd_get_active_resolution prof s = Some (res, sp) \<Longrightarrow>
   live sp = opt_handle HResolution res @ live s \<and> over_released sp = over_released s \<and>
   mutations sp = mutations s \<and> (res \<noteq> None \<longrightarrow> prof \<noteq> None)"
  by (simp add: ratbag_cmd_get_active_resolution_def get_active_resolution_from_refs)

lemma fill_options_resolution_unfold:
  "fill_options_resolution fl options argc prof s =
     (if fl AND FLAG_NEED_RESOLUTION \<noteq> 0 \<and> resolution options = None
      then (case ratbag_cmd_get_active_resolution prof s of
              None \<Rightarrow> None
            | Some (res, s1) \<Rightarrow>
                if res = None then Some ((ERR_DEVICE, options, argc), s1)
                else Some ((SUCCESS, options\<lparr>resolution := res\<rparr>, argc), s1))
      else Some ((SUCCESS, options, argc), s))"
  by (simp add: fill_options_resolution_def split: option.splits)

lemma fill_options_profile_unfold:
  "fill_options_profile fl options argc dev s =
     (if fl AND (FLAG_NEED_PROFILE OR FLAG_NEED_RESOLUTION) \<noteq> 0 \<and> profile options = None
      then (case ratbag_cmd_get_active_profile dev s of
              None \<Rightarrow> None
            | Some (prof, sp) \<Rightarrow>
                if prof = None then Some ((ERR_DEVICE, options, argc), sp)
                else fill_options_resolution fl (options\<lparr>profile := prof\<rparr>) argc prof sp)
      else fill_options_resolution fl options argc (profile options) s)"
  by (simp add: fill_options_profile_def split: option.splits)

lemma fill_options_unfold:
  "fill_options ratbag options fl argc argv s =
     (if fl AND (FLAG_NEED_DEVICE OR FLAG_NEED_PROFILE OR FLAG_NEED_RESOLUTION) \<noteq> 0 \<and>
         device options = None
      then (case ratbag_cmd_device_from_arg ratbag argc argv s of
              None \<Rightarrow> None
            | Some ((dev, a), sd) \<Rightarrow>
                if dev = None then Some ((ERR_DEVICE, options, a), sd)
                else fill_options_profile fl (options\<lparr>device := dev\<rparr>) a dev sd)
      else fill_options_profile fl options argc (device options) s)"
  by (simp add: fill_options_def split: option.splits)

lemma fill_options_resolution_result [consumes 1, case_names skip fail store]:
  assumes run: "fill_options_resolution fl options argc prof s = Some ((rc, o1, a1), s1)"
  obtains
    (skip) "\<not> (fl AND FLAG_NEED_RESOLUTION \<noteq> 0 \<and> resolution options = None)"
      "rc = SUCCESS" "o1 = options" "s1 = s"
  | (fail) "fl AND FLAG_NEED_RESOLUTION \<noteq> 0" "resolution options = None"
      "ratbag_cmd_get_active_resolution prof s = Some (None, s1)" "rc = ERR_DEVICE" "o1 = options"
  | (store) r where "fl AND FLAG_NEED_RESOLUTION \<noteq> 0" "resolution options = None"
      "ratbag_cmd_get_active_resolution prof s = Some (Some r, s1)" "rc = SUCCESS"
      "o1 = options\<lparr>resolution := Some r\<rparr>"
proof (cases "fl AND FLAG_NEED_RESOLUTION \<noteq> 0 \<and> resolution options = None")
  case False
  with run have "rc = SUCCESS" "o1 = options" "s1 = s"
    by (simp_all add: fill_options_resolution_unfold)
  with False show ?thesis by (rule skip)
next
  case need: True
  show ?thesis
  proof (cases "ratbag_cmd_get_active_resolution prof s")
    case None
    with run need show ?thesis by (simp add: fill_options_resolution_unfold)
  next
    case (Some x)
    obtain res sp where x: "x = (res, sp)" by (cases x) auto
    show ?thesis
    proof (cases res)
      case None
      with run need Some x have "ratbag_cmd_get_active_resolution prof s = Some (None, s1)"
          "rc = ERR_DEVICE" "o1 = options"
        by (simp_all add: fill_options_resolution_unfold)
      with need show ?thesis by (intro fail) simp_all
    next
      case (Some r)
      with run need \<open>ratbag_cmd_get_active_resolution prof s = Some x\<close> x
      have "ratbag_cmd_get_active_resolution prof s = Some (Some r, s1)"
          "rc = SUCCESS" "o1 = options\<lparr>resolution := Some r\<rparr>"
        by (simp_all add: fill_options_resolution_unfold)
      with need show ?thesis by (intro store [of r]) simp_all
    qed
  qed
qed

lemma fill_options_profile_result [consumes 1, case_names skip fail store]:
  assumes run: "fill_options_profile fl options argc dev s = Some ((rc, o1, a1), s1)"
  obtains
    (skip) "\<not> (fl AND (FLAG_NEED_PROFILE OR FLAG_NEED_RESOLUTION) \<noteq> 0 \<and> profile options = None)"
      "fill_options_resolution fl options argc (profile options) s = Some ((rc, o1, a1), s1)"
  | (fail) "fl AND (FLAG_NEED_PROFILE OR FLAG_NEED_RESOLUTION) \<noteq> 0" "profile options = None"
      "ratbag_cmd_get_active_profile dev s = Some (None, s1)" "rc = ERR_DEVICE" "o1 = options"
  | (store) p sp where "fl AND (FLAG_NEED_PROFILE OR FLAG_NEED_RESOLUTION) \<noteq> 0"
      "profile options = None" "ratbag_cmd_get_active_profile dev s = Some (Some p, sp)"
      "fill_options_resolution fl (options\<lparr>profile := Some p\<rparr>) argc (Some p) sp =
         Some ((rc, o1, a1), s1)"
proof (cases "fl AND (FLAG_NEED_PROFILE OR FLAG_NEED_RESOLUTION) \<noteq> 0 \<and> profile options = None")
  case False
  with run
  have "fill_options_resolution fl options argc (profile options) s = Some ((rc, o1, a1), s1)"
    by (simp add: fill_options_profile_unfold)
  with False show ?thesis by (rule skip)
next
  case need: True
  show ?thesis
  proof (cases "ratbag_cmd_get_active_profile dev s")
    case None
    with run need show ?thesis by (simp add: fill_options_profile_unfold)
  next
    case (Some x)
    obtain prof sp where x: "x = (prof, sp)" by (cases x) auto
    show ?thesis
    proof (cases prof)
      case None
      with run need Some x have "ratbag_cmd_get_active_profile dev s = Some (None, s1)"
          "rc = ERR_DEVICE" "o1 = options"
        by (simp_all add: fill_options_profile_unfold)
      with need show ?thesis by (intro fail) simp_all
    next
      case (Some p)
      with run need \<open>ratbag_cmd_get_active_profile dev s = Some x\<close> x
      have "ratbag_cmd_get_active_profile dev s = Some (Some p, sp)"
          "fill_options_resolution fl (options\<lparr>profile := Some p\<rparr>) argc (Some p) sp =
             Some ((rc, o1, a1), s1)"
        by (simp_all add: fill_options_profile_unfold)
      with need show ?thesis by (intro store [of p sp]) simp_all
    qed
  qed
qed

lemma fill_options_result [consumes 1, case_names skip fail store]:
  assumes run: "fill_options ratbag options fl argc argv s = Some ((rc, o1, a1), s1)"
  obtains
    (skip) "\<not> (fl AND (FLAG_NEED_DEVICE OR FLAG_NEED_PROFILE OR FLAG_NEED_RESOLUTION) \<noteq> 0 \<and>
          device options = None)"
      "fill_options_profile fl options argc (device options) s = Some ((rc, o1, a1), s1)"
  | (fail) "fl AND (FLAG_NEED_DEVICE OR FLAG_NEED_PROFILE OR FLAG_NEED_RESOLUTION) \<noteq> 0"
      "device options = None"
      "ratbag_cmd_device_from_arg ratbag argc argv s = Some ((None, a1), s1)" "rc = ERR_DEVICE"
      "o1 = options"
  | (store) d a sd where
      "fl AND (FLAG_NEED_DEVICE OR FLAG_NEED_PROFILE OR FLAG_NEED_RESOLUTION) \<noteq> 0"
      "device options = None"
      "ratbag_cmd_device_from_arg ratbag argc argv s = Some ((Some d, a), sd)"
      "fill_options_profile fl (options\<lparr>device := Some d\<rparr>) a (Some d) sd =
         Some ((rc, o1, a1), s1)"
proof (cases "fl AND (FLAG_NEED_DEVICE OR FLAG_NEED_PROFILE OR FLAG_NEED_RESOLUTION) \<noteq> 0 \<and>
    device options = None")
  case False
  with run
  have "fill_options_profile fl options argc (device options) s = Some ((rc, o1, a1), s1)"
    by (simp add: fill_options_unfold)
  with False show ?thesis by (rule skip)
next
  case need: True
  show ?thesis
  proof (cases "ratbag_cmd_device_from_arg ratbag argc argv s")
    case None
    with run need show ?thesis by (simp add: fill_options_unfold)
  next
    case (Some x)
    obtain dev a sd where x: "x = ((dev, a), sd)" by (cases x) auto
    show ?thesis
    proof (cases dev)
      case None
      with run need Some x
      have "ratbag_cmd_device_from_arg ratbag argc argv s = Some ((None, a1), s1)"
          "rc = ERR_DEVICE" "o1 = options"
        by (simp_all add: fill_options_unfold)
      with need show ?thesis by (intro fail) simp_all
    next
      case (Some d)
      with run need \<open>ratbag_cmd_device_from_arg ratbag argc argv s = Some x\<close> x
      have "ratbag_cmd_device_from_arg ratbag argc argv s = Some ((Some d, a), sd)"
          "fill_options_profile fl (options\<lparr>device := Some d\<rparr>) a (Some d) sd =
             Some ((rc, o1, a1), s1)"
        by (simp_all add: fill_options_unfold)
      with need show ?thesis by (intro store [of d a sd]) simp_all
    qed
  qed
qed


lemma and_or_eq_0:
  fixes x :: "32 word"
  shows "x AND (a OR b) = 0 \<longleftrightarrow> x AND a = 0 \<and> x AND b = 0"
  by (simp add: bit.conj_disj_distrib or_eq_0_iff)

lemma context_ok_None:
  "context_ok options \<Longrightarrow> profile options = None \<Longrightarrow> resolution options = None"
  "context_ok options \<Longrightarrow> device options = None \<Longrightarrow> profile options = None"
  by (cases "resolution options"; cases "profile options"; simp add: context_ok_def)+

lemma context_ok_store:
  "context_ok options \<Longrightarrow> profile options \<noteq> None \<Longrightarrow> context_ok (options\<lparr>resolution := res\<rparr>)"
  "context_ok options \<Longrightarrow> device options \<noteq> None \<Longrightarrow> resolution options = None \<Longrightarrow>
   context_ok (options\<lparr>profile := prof\<rparr>)"
  "context_ok options \<Longrightarrow> profile options = None \<Longrightarrow> resolution options = None \<Longrightarrow>
   context_ok (options\<lparr>device := dev\<rparr>)"
  by (simp_all add: context_ok_def)





lemma fill_options_resolution_ok:
  assumes run: "fill_options_resolution fl options argc prof s = Some ((rc, o1, a1), s1)"
    and ok: "context_ok options" and prof: "prof = profile options"
  shows "context_ok o1"
  using run
proof (cases rule: fill_options_resolution_result)
  case skip
  with ok show ?thesis by simp
next
  case fail
  with ok show ?thesis by simp
next
  case (store r)
  from get_active_resolution_refs [OF store(3)] prof have "profile options \<noteq> None" by simp
  with ok store(5) show ?thesis by (simp add: context_ok_store(1))
qed

lemma fill_options_profile_ok:
  assumes run: "fill_options_profile fl options argc dev s = Some ((rc, o1, a1), s1)"
    and ok: "context_ok options" and dev: "dev = device options"
  shows "context_ok o1"
  using run
proof (cases rule: fill_options_profile_result)
  case skip
  from skip(2) ok show ?thesis by (rule fill_options_resolution_ok) simp
next
  case fail
  with ok show ?thesis by simp
next
  case (store p sp)
  from get_active_profile_refs [OF store(3)] dev have "device options \<noteq> None" by simp
  with ok store(2) have "context_ok (options\<lparr>profile := Some p\<rparr>)"
    using context_ok_None(1) [OF ok store(2)] by (simp add: context_ok_store(2))
  with store(4) show ?thesis by (rule fill_options_resolution_ok) simp
qed

lemma fill_options_ok:
  assumes run: "fill_options ratbag options fl argc argv s = Some ((rc, o1, a1), s1)"
    and ok: "context_ok options"
  shows "context_ok o1"
  using run
proof (cases rule: fill_options_result)
  case skip
  from skip(2) ok show ?thesis by (rule fill_options_profile_ok) simp
next
  case fail
  with ok show ?thesis by simp
next
  case (store d a sd)
  from ok store(2) have "context_ok (options\<lparr>device := Some d\<rparr>)"
    using context_ok_None(2) [OF ok store(2)]
      context_ok_None(1) [OF ok context_ok_None(2) [OF ok store(2)]]
    by (simp add: context_ok_store(3))
  with store(4) show ?thesis by (rule fill_options_profile_ok) simp
qed





























section \<open>Release of the context\<close>




end
